theory Spec2Isabelle
  imports Main
begin

section \<open>Python strings, paths and exceptions\<close>

text \<open>
  The three recipes (cp2k, fftw, vasp) assemble flag strings and hand them to external
  tools. Strings are character lists; \<open>sep.join(xs)\<close> and \<open>os.path.join\<close> are the
  Python library functions the recipes call.
\<close>

datatype error =
    KeyError string
  | IOError string
  | InstallError string
  | OSError string
  | ProcessError string

fun join :: "string \<Rightarrow> string list \<Rightarrow> string" where
  "join sep [] = []"
| "join sep [x] = x"
| "join sep (x # y # ys) = x @ sep @ join sep (y # ys)"

definition endswith :: "string \<Rightarrow> string \<Rightarrow> bool" where
  "endswith s suf = (length suf \<le> length s \<and> drop (length s - length suf) s = suf)"

definition startswith :: "string \<Rightarrow> string \<Rightarrow> bool" where
  "startswith s pre = (take (length pre) s = pre)"

text \<open>\<open>sub in s\<close> for two Python strings: \<open>sub\<close> occurs in \<open>s\<close> as a contiguous run.\<close>

fun str_contains :: "string \<Rightarrow> string \<Rightarrow> bool" where
  "str_contains sub [] = (sub = [])"
| "str_contains sub (c # cs) = (startswith (c # cs) sub \<or> str_contains sub cs)"

text \<open>\<open>os.path.join\<close> on POSIX: an absolute component discards what precedes it, and a
  separator is inserted unless the left part is empty or already ends with one.\<close>

definition path_join2 :: "string \<Rightarrow> string \<Rightarrow> string" where
  "path_join2 a b =
     (if startswith b ''/'' then b
      else if a = [] \<or> endswith a ''/'' then a @ b
      else a @ ''/'' @ b)"

fun join_path :: "string \<Rightarrow> string list \<Rightarrow> string" where
  "join_path a [] = a"
| "join_path a (b # bs) = join_path (path_join2 a b) bs"

text \<open>Decimal rendering of a natural number, as \<open>'{0}'.format(n)\<close> gives, and the
  zero-padded width-2 form of \<open>'{0:02d}'.format(n)\<close>.\<close>

definition digit_char :: "nat \<Rightarrow> char" where
  "digit_char d =
     (if d = 0 then CHR ''0'' else if d = 1 then CHR ''1'' else if d = 2 then CHR ''2''
      else if d = 3 then CHR ''3'' else if d = 4 then CHR ''4'' else if d = 5 then CHR ''5''
      else if d = 6 then CHR ''6'' else if d = 7 then CHR ''7'' else if d = 8 then CHR ''8''
      else CHR ''9'')"

function str_nat :: "nat \<Rightarrow> string" where
  "str_nat n = (if n < 10 then [digit_char n] else str_nat (n div 10) @ [digit_char (n mod 10)])"
  by pat_completeness auto
termination
  by (relation "measure id") auto

declare str_nat.simps [simp del]

definition format_02d :: "nat \<Rightarrow> string" where
  "format_02d n = (if n < 10 then CHR ''0'' # str_nat n else str_nat n)"

text \<open>\<open>'{0}'.format(x)\<close> for a value that may be \<open>None\<close>.\<close>

definition str_opt :: "string option \<Rightarrow> string" where
  "str_opt x = (case x of None \<Rightarrow> ''None'' | Some s \<Rightarrow> s)"

text \<open>Python truthiness of an optional string: \<open>None\<close> and the empty string are false.\<close>

definition truthy :: "string option \<Rightarrow> bool" where
  "truthy x = (case x of None \<Rightarrow> False | Some s \<Rightarrow> s \<noteq> [])"

section \<open>Compilers and external invocations\<close>

record compiler =
  name :: string
  version_str :: string
  cc :: "string option"
  f77 :: "string option"
  fc :: "string option"
  stdcxx_libs :: "string list"
  openmp_flag :: string

text \<open>One external command: the directory it runs in, the executable and its arguments.\<close>

record invocation =
  wdir :: string
  command :: string
  args :: "string list"

section \<open>Resolved specifications\<close>

text \<open>
  Modelled from the spec: the class Spec belongs to the package manager's core, which is not
  among the recipes. The spec describes it as "a resolved description of one package
  instance -- concrete version, a mapping from variant name to selected value (boolean or
  enumerated), a set of concrete dependency specs, and a selected compiler identity", and
  the tests \<open>'+v' in spec\<close>, \<open>'~v' in spec\<close>, \<open>'v=x' in spec\<close> as "contains variant" checks
  that are a lookup of the selected value. So every declared variant is a field holding
  its selected value, \<open>'+v' in spec\<close> reads the field, \<open>'~v' in spec\<close> its negation, and
  \<open>'%c' in spec\<close> compares the compiler's name with \<open>c\<close>.
\<close>

record spec =
  architecture :: string
  compiler :: compiler

text \<open>Modelled from the spec: the test \<open>'%c' in spec\<close>, also written
  \<open>spec.satisfies('%c')\<close>, is answered by the core; by the spec a Spec has one "selected
  compiler identity (name + version)", and the test compares its name with \<open>c\<close>.\<close>

definition has_compiler :: "'a spec_scheme \<Rightarrow> string \<Rightarrow> bool" where
  "has_compiler s c = (name (compiler s) = c)"

section \<open>cp2k\<close>

text \<open>The declared versions 5.1, 4.1 and 3.0, and the values of the variant \<open>smm\<close>.\<close>

datatype release = V5_1 | V4_1 | V3_0

datatype smm_value = Libxsmm | Libsmm | SmmNone

text \<open>\<open>spec.satisfies('@:4.999')\<close> on the declared versions.\<close>

fun upto_4_999 :: "release \<Rightarrow> bool" where
  "upto_4_999 V5_1 = False"
| "upto_4_999 V4_1 = True"
| "upto_4_999 V3_0 = True"

text \<open>
  A cp2k Spec: the four variants of the recipe, and what the resolver answers when
  \<open>install\<close> asks it. The answers are parameters of the model:
  \<^item> \<open>dep_libs q\<close>, \<open>dep_cpp_flags q\<close>, \<open>dep_prefix q\<close>, \<open>dep_prefix_lib q\<close> are
    \<open>spec[q].libs\<close>, \<open>spec[q].headers.cpp_flags\<close>, \<open>spec[q].prefix\<close> and
    \<open>spec[q].prefix.lib\<close> for the query string \<open>q\<close>;
  \<^item> \<open>search_flags l\<close> is the property \<open>search_flags\<close> of the library list \<open>l\<close>;
  \<^item> \<open>in_intel_mkl\<close>, \<open>in_mpi_3\<close>, \<open>in_mpi_2\<close>, \<open>in_superlu_dist_4_3\<close>, \<open>in_wannier90\<close>
    are the tests \<open>'^intel-mkl' in spec\<close>, \<open>'^mpi@3:' in spec\<close>, \<open>'^mpi@2:' in spec\<close>,
    \<open>'superlu-dist@4.3' in spec\<close> and \<open>'wannier90' in spec\<close>;
  \<^item> the \<open>elpa_\<close> fields are \<open>elpa.satisfies('@:2014.5.999')\<close>,
    \<open>elpa.satisfies('@2014.6:2015.10.999')\<close>, \<open>elpa.version[0]\<close>, \<open>int(elpa.version[1])\<close>
    and \<open>str(elpa.version)\<close>;
  \<^item> \<open>mpifc\<close> is \<open>spec['mpi'].mpifc\<close>; \<open>prefix_data\<close> and \<open>prefix_bin\<close> are
    \<open>self.prefix.data\<close> and \<open>self.prefix.bin\<close>.
\<close>

record cp2k_spec = spec +
  version :: release
  static :: bool
  mpi :: bool
  smm :: smm_value
  plumed :: bool
  prefix_data :: string
  prefix_bin :: string
  dep_libs :: "string \<Rightarrow> string list"
  dep_cpp_flags :: "string \<Rightarrow> string"
  dep_prefix :: "string \<Rightarrow> string"
  dep_prefix_lib :: "string \<Rightarrow> string"
  search_flags :: "string list \<Rightarrow> string"
  in_intel_mkl :: bool
  in_mpi_3 :: bool
  in_mpi_2 :: bool
  in_superlu_dist_4_3 :: bool
  in_wannier90 :: bool
  elpa_upto_2014_5 :: bool
  elpa_2014_6_to_2015_10 :: bool
  elpa_version0 :: nat
  elpa_version1 :: nat
  elpa_version_str :: string
  mpifc :: string

text \<open>
  Modelled from the spec: the sum of two library lists is defined by the class LibraryList
  of the core, not by the recipes. The spec asks to "concatenate per-channel flag lists
  preserving append order", so a library list is the list of its files and the sum is
  concatenation.
\<close>

definition ll_add :: "string list \<Rightarrow> string list \<Rightarrow> string list" where
  "ll_add a b = a @ b"

subsection \<open>\<open>with_static\<close>\<close>

definition with_static :: "cp2k_spec \<Rightarrow> string \<Rightarrow> string" where
  "with_static s query =
     (if \<not> static s then query
      else if CHR '':'' \<in> set query then query @ '',static''
      else query @ '':static'')"

subsection \<open>The flag set under construction\<close>

text \<open>The lists \<open>install\<close> builds, and \<open>mkf\<close>, the strings written to the makefile so
  far, one entry for each \<open>mkf.write\<close>.\<close>

record build =
  dflags :: "string list"
  cppflags :: "string list"
  cflags :: "string list"
  cxxflags :: "string list"
  fcflags :: "string list"
  ldflags :: "string list"
  libs :: "string list"
  mkf :: "string list"

definition mkf_write :: "string \<Rightarrow> build \<Rightarrow> build" where
  "mkf_write x b = b\<lparr>mkf := mkf b @ [x]\<rparr>"

definition optflags :: "string \<Rightarrow> string list option" where
  "optflags = map_of
     [(''gcc'', [''-O2'', ''-mtune=native'', ''-funroll-loops'', ''-ffast-math'',
                 ''-ftree-vectorize'']),
      (''intel'', [''-O2'', ''-ip'', ''-pc64'', ''-unroll''])]"

definition base_dflags :: "cp2k_spec \<Rightarrow> string list" where
  "base_dflags s =
     [''-D__DATA_DIR='' @ prefix_data s, ''-DNDEBUG'', ''-D__FFTW3'', ''-D__LIBINT'',
      ''-D__LIBINT_MAX_AM=6'', ''-D__LIBDERIV_MAX_AM1=5'', ''-D__LIBXC'']"

definition intel_dflags :: "string list" where
  "intel_dflags = [''-D__INTEL'', ''-D__HAS_ISO_C_BINDING'', ''-D__USE_CP2K_TRACE'', ''-D__MKL'']"

text \<open>Lines 111 to 147: the base defines, the optimisation template of the compiler
  (a \<open>KeyError\<close> on a compiler the table does not list) and the compiler-specific flags.\<close>

definition start_flags :: "cp2k_spec \<Rightarrow> error + build" where
  "start_flags s =
     (let d = base_dflags s @ (if in_intel_mkl s then [''-D__FFTSG''] else [])
      in case optflags (name (compiler s)) of
           None \<Rightarrow> Inl (KeyError (name (compiler s)))
         | Some opt \<Rightarrow>
             let b = \<lparr>dflags = d, cppflags = [], cflags = opt, cxxflags = opt, fcflags = opt,
                      ldflags = [], libs = [], mkf = []\<rparr>
             in if has_compiler s ''intel'' then
                  Inr (b\<lparr>dflags := dflags b @ intel_dflags,
                         cflags := cflags b @ [''-fp-model precise''],
                         cxxflags := cxxflags b @ [''-fp-model precise''],
                         fcflags := fcflags b @
                           [''-fp-model source'', ''-heap-arrays 64'',
                            ''-diag-disable 8290,8291,10010,10212,11060'', ''-free'', ''-fpp'']\<rparr>)
                else if has_compiler s ''gcc'' then
                  Inr (b\<lparr>fcflags := fcflags b @ [''-ffree-form'', ''-ffree-line-length-none'']\<rparr>)
                else Inr b)"

text \<open>Lines 149 to 163: header flags and libraries of fftw, libxc, lapack, blas, libint.\<close>

definition fftw_libs :: "cp2k_spec \<Rightarrow> string list" where
  "fftw_libs s = dep_libs s (with_static s ''fftw'')"

definition libxc_libs :: "cp2k_spec \<Rightarrow> string list" where
  "libxc_libs s = dep_libs s (with_static s ''libxc:fortran'')"

definition lapack_libs :: "cp2k_spec \<Rightarrow> string list" where
  "lapack_libs s = dep_libs s (with_static s ''lapack'')"

definition blas_libs :: "cp2k_spec \<Rightarrow> string list" where
  "blas_libs s = dep_libs s (with_static s ''blas'')"

definition base_search_flags :: "cp2k_spec \<Rightarrow> string" where
  "base_search_flags s =
     search_flags s (ll_add (ll_add (ll_add (fftw_libs s) (lapack_libs s)) (blas_libs s))
                            (libxc_libs s))"

definition dep_block :: "cp2k_spec \<Rightarrow> build \<Rightarrow> build" where
  "dep_block s b =
     b\<lparr>fcflags := fcflags b @ [dep_cpp_flags s (with_static s ''fftw''),
                                dep_cpp_flags s (with_static s ''libxc:fortran'')],
       ldflags := [base_search_flags s],
       libs := dep_libs s (with_static s ''libint'')\<rparr>"

text \<open>Lines 166 to 229: the MPI block. \<open>mpi_dflags\<close> lists the defines it appends, in the
  order of the appends; \<open>mpi_libs\<close> is the sum of libraries of line 210.\<close>

definition elpa_dflag :: "cp2k_spec \<Rightarrow> string" where
  "elpa_dflag s =
     (if upto_4_999 (version s) then
        (if elpa_upto_2014_5 s then ''-D__ELPA''
         else if elpa_2014_6_to_2015_10 s then ''-D__ELPA2''
         else ''-D__ELPA3'')
      else ''-D__ELPA='' @ str_nat (elpa_version0 s) @ format_02d (elpa_version1 s))"

definition mpi_dflags :: "cp2k_spec \<Rightarrow> string list" where
  "mpi_dflags s =
     (if in_mpi_3 s then [''-D__MPI_VERSION=3'']
      else if in_mpi_2 s then [''-D__MPI_VERSION=2''] else [])
     @ [''-D__parallel'', ''-D__LIBPEXSI'', ''-D__SCALAPACK'']
     @ [elpa_dflag s]
     @ (if in_wannier90 s then [''-D__WANNIER90''] else [])"

definition elpa_include :: "cp2k_spec \<Rightarrow> string \<Rightarrow> string" where
  "elpa_include s sub =
     ''-I'' @ join_path (dep_prefix s (with_static s ''elpa''))
                [''include'', ''elpa-'' @ elpa_version_str s, sub]"

definition mpi_fcflags :: "cp2k_spec \<Rightarrow> string list" where
  "mpi_fcflags s =
     (if upto_4_999 (version s) then [] else [elpa_include s ''elpa''])
     @ [elpa_include s ''modules'', ''-I'' @ join_path (dep_prefix s ''pexsi'') [''fortran'']]"

definition scalapack_libs :: "cp2k_spec \<Rightarrow> string list" where
  "scalapack_libs s = dep_libs s (with_static s ''scalapack'')"

definition mpi_libs :: "cp2k_spec \<Rightarrow> string list" where
  "mpi_libs s =
     ll_add (ll_add (ll_add (ll_add (ll_add (ll_add (ll_add
       (dep_libs s (with_static s ''elpa''))
       (dep_libs s ''pexsi''))
       (dep_libs s ''superlu-dist''))
       (dep_libs s ''parmetis''))
       (dep_libs s ''metis''))
       (scalapack_libs s))
       (dep_libs s (with_static s ''mpi:cxx'')))
       (stdcxx_libs (compiler s))"

definition wannier :: "cp2k_spec \<Rightarrow> string" where
  "wannier s = join_path (dep_prefix_lib s ''wannier90'') [''libwannier.a'']"

definition mpi_block :: "cp2k_spec \<Rightarrow> build \<Rightarrow> build" where
  "mpi_block s b =
     (if mpi s then
        b\<lparr>dflags := dflags b @ mpi_dflags s,
          fcflags := fcflags b @ mpi_fcflags s,
          ldflags := (if in_superlu_dist_4_3 s then [''-Wl,--allow-multiple-definition''] else [])
                     @ ldflags b @ [search_flags s (scalapack_libs s)],
          libs := (if in_wannier90 s
                   then ll_add (ll_add (libs b) (mpi_libs s)) [wannier s]
                   else ll_add (libs b) (mpi_libs s))\<rparr>
      else b)"

text \<open>Lines 231 to 250: the small-matrix library. \<open>env\<close> is the process environment and
  \<open>isfile\<close> is \<open>os.path.isfile\<close> on the file system of the build.\<close>

definition libsmm_unset :: error where
  "libsmm_unset = KeyError
     ''Point environment variable LIBSMM_PATH to the absolute path of the libsmm.a file''"

definition libsmm_not_a_file :: error where
  "libsmm_not_a_file = IOError
     ''The file LIBSMM_PATH pointed to does not exist. Note that it must be absolute path.''"

definition smm_block ::
  "cp2k_spec \<Rightarrow> (string \<rightharpoonup> string) \<Rightarrow> (string \<Rightarrow> bool) \<Rightarrow> build \<Rightarrow> error + build" where
  "smm_block s env isfile b =
     (if smm s = Libsmm then
        (case env ''LIBSMM_PATH'' of
           None \<Rightarrow> Inl libsmm_unset
         | Some libsmm_path \<Rightarrow>
             if \<not> isfile libsmm_path then Inl libsmm_not_a_file
             else Inr (b\<lparr>dflags := dflags b @ [''-D__HAS_smm_dnn'', ''-D__HAS_smm_vec''],
                         libs := ll_add (libs b) [libsmm_path]\<rparr>))
      else if smm s = Libxsmm then
        Inr (b\<lparr>dflags := dflags b @ [''-D__LIBXSMM''],
               fcflags := fcflags b @ [dep_cpp_flags s ''libxsmm''],
               ldflags := ldflags b @ [search_flags s (dep_libs s ''libxsmm'')],
               libs := ll_add (libs b) (dep_libs s ''libxsmm'')\<rparr>)
      else Inr b)"

text \<open>Lines 252 to 264: PLUMED. The include line is the first thing written to the file.\<close>

definition plumed_inc :: "cp2k_spec \<Rightarrow> string" where
  "plumed_inc s =
     join_path (dep_prefix_lib s ''plumed'') [''plumed'', ''src'', ''lib'', ''Plumed.inc'']"

definition plumed_block :: "cp2k_spec \<Rightarrow> build \<Rightarrow> build" where
  "plumed_block s b =
     (if plumed s then
        (mkf_write (''include '' @ plumed_inc s @ ''\<newline>\<newline>'') b)
          \<lparr>dflags := dflags b @ [''-D__PLUMED2''],
           libs := ll_add (libs b) (dep_libs s ''plumed'')\<rparr>
      else b)"

text \<open>Lines 266 to 303: the closing sum of libraries, the tool lines, the propagation of
  the defines into the compile flags, and the flag lines.\<close>

definition fc_command :: "cp2k_spec \<Rightarrow> string" where
  "fc_command s = (if \<not> mpi s then str_opt (fc (compiler s)) else mpifc s)"

definition tool_lines :: "cp2k_spec \<Rightarrow> string list" where
  "tool_lines s =
     [''CC = '' @ str_opt (cc (compiler s)) @ ''\<newline>'']
     @ (if has_compiler s ''intel''
        then [''CPP = # '' @ str_opt (cc (compiler s)) @ '' -P\<newline>'', ''AR = xiar -r\<newline>'']
        else [''CPP = # '' @ str_opt (cc (compiler s)) @ '' -E\<newline>'', ''AR = ar -r\<newline>''])
     @ [''FC = '' @ fc_command s @ ''\<newline>'', ''LD = '' @ fc_command s @ ''\<newline>\<newline>'']"

definition propagate :: "build \<Rightarrow> build" where
  "propagate b =
     (let cpp = cppflags b @ dflags b
      in b\<lparr>cppflags := cpp, cflags := cflags b @ cpp, cxxflags := cxxflags b @ cpp,
           fcflags := fcflags b @ cpp\<rparr>)"

definition flag_lines :: "cp2k_spec \<Rightarrow> build \<Rightarrow> string list" where
  "flag_lines s b =
     [''DFLAGS = '' @ join '' '' (dflags b) @ ''\<newline>\<newline>'',
      ''CPPFLAGS = '' @ join '' '' (cppflags b) @ ''\<newline>\<newline>'',
      ''CFLAGS = '' @ join '' '' (cflags b) @ ''\<newline>\<newline>'',
      ''CXXFLAGS = '' @ join '' '' (cxxflags b) @ ''\<newline>\<newline>'',
      ''FCFLAGS = '' @ join '' '' (fcflags b) @ ''\<newline>\<newline>'',
      ''LDFLAGS = '' @ join '' '' (ldflags b) @ ''\<newline>\<newline>'']
     @ (if has_compiler s ''intel''
        then [''LDFLAGS_C = '' @ (join '' '' (ldflags b) @ '' -nofor_main'') @ ''\<newline>\<newline>'']
        else [])
     @ [''LIBS = '' @ join '' '' (libs b) @ ''\<newline>\<newline>'']"

definition finish :: "cp2k_spec \<Rightarrow> build \<Rightarrow> build" where
  "finish s b =
     (let b1 = b\<lparr>libs := ll_add (libs b)
                  (ll_add (ll_add (ll_add (libxc_libs s) (fftw_libs s)) (lapack_libs s))
                          (blas_libs s))\<rparr>;
          b2 = b1\<lparr>mkf := mkf b1 @ tool_lines s\<rparr>;
          b3 = propagate b2
      in b3\<lparr>mkf := mkf b3 @ flag_lines s b3\<rparr>)"

text \<open>The body of \<open>with open(makefile, 'w') as mkf\<close>, lines 94 to 303.\<close>

definition write_makefile ::
  "cp2k_spec \<Rightarrow> (string \<rightharpoonup> string) \<Rightarrow> (string \<Rightarrow> bool) \<Rightarrow> error + build" where
  "write_makefile s env isfile =
     (case start_flags s of
        Inl e \<Rightarrow> Inl e
      | Inr b \<Rightarrow>
          (case smm_block s env isfile (mpi_block s (dep_block s b)) of
             Inl e \<Rightarrow> Inl e
           | Inr b' \<Rightarrow> Inr (finish s (plumed_block s b'))))"

definition makefile_text :: "build \<Rightarrow> string" where
  "makefile_text b = concat (mkf b)"

subsection \<open>The make step and the whole of \<open>install\<close>\<close>

definition cp2k_architecture :: "cp2k_spec \<Rightarrow> string" where
  "cp2k_architecture s = architecture s @ ''-'' @ name (compiler s)"

definition cp2k_version :: "cp2k_spec \<Rightarrow> string" where
  "cp2k_version s = (if \<not> mpi s then ''sopt'' else ''popt'')"

definition makefile :: "cp2k_spec \<Rightarrow> string" where
  "makefile s = join_path ''arch'' [join ''.'' [cp2k_architecture s, cp2k_version s]]"

text \<open>
  \<open>run_make\<close> is the external build tool \<open>make\<close>: given the invocation and the environment it runs
  in, it succeeds (\<open>None\<close>) or fails with an error. \<open>cwd\<close> is the directory \<open>install\<close>
  starts in, so that \<open>os.getcwd()\<close> inside \<open>working_dir('makefiles')\<close> is
  \<open>cwd/makefiles\<close>. The result records the environment after the step, and the
  invocation together with the environment the tool saw.
\<close>

record make_step =
  env_after :: "string \<rightharpoonup> string"
  ran :: invocation
  env_during :: "string \<rightharpoonup> string"

definition makefiles_stage ::
  "(invocation \<Rightarrow> (string \<rightharpoonup> string) \<Rightarrow> error option) \<Rightarrow> cp2k_spec \<Rightarrow> string \<Rightarrow>
   (string \<rightharpoonup> string) \<Rightarrow> error + make_step" where
  "makefiles_stage run_make s cwd env =
     (case env ''PWD'' of
        None \<Rightarrow> Inl (KeyError ''PWD'')
      | Some pwd_backup \<Rightarrow>
          let env1 = env(''PWD'' \<mapsto> path_join2 cwd ''makefiles'');
              inv = \<lparr>wdir = ''makefiles'', command = ''make'',
                     args = [''ARCH='' @ cp2k_architecture s, ''VERSION='' @ cp2k_version s]\<rparr>
          in (case run_make inv env1 of
                Some e \<Rightarrow> Inl e
              | None \<Rightarrow> Inr \<lparr>env_after = env1(''PWD'' \<mapsto> pwd_backup), ran = inv,
                             env_during = env1\<rparr>))"

datatype action =
    WriteFile string string
  | Run invocation
  | CopyTree string string

record installed =
  flag_set :: build
  plan :: "action list"
  final_env :: "string \<rightharpoonup> string"

definition install ::
  "(invocation \<Rightarrow> (string \<rightharpoonup> string) \<Rightarrow> error option) \<Rightarrow> cp2k_spec \<Rightarrow> string \<Rightarrow>
   (string \<rightharpoonup> string) \<Rightarrow> (string \<Rightarrow> bool) \<Rightarrow> error + installed" where
  "install run_make s cwd env isfile =
     (case write_makefile s env isfile of
        Inl e \<Rightarrow> Inl e
      | Inr b \<Rightarrow>
          (case makefiles_stage run_make s cwd env of
             Inl e \<Rightarrow> Inl e
           | Inr r \<Rightarrow>
               Inr \<lparr>flag_set = b,
                    plan = [WriteFile (makefile s) (makefile_text b), Run (ran r),
                            CopyTree (join_path ''exe'' [cp2k_architecture s]) (prefix_bin s),
                            CopyTree ''data'' (prefix_data s)],
                    final_env = env_after r\<rparr>))"

section \<open>fftw\<close>

text \<open>The declared versions 3.3.7, 3.3.6-pl2, 3.3.5, 3.3.4 and 2.1.5, with
  \<open>spec.satisfies('@3:')\<close> and \<open>spec.satisfies('@:2')\<close> on them.\<close>

datatype fftw_release = F3_3_7 | F3_3_6_pl2 | F3_3_5 | F3_3_4 | F2_1_5

fun at_least_3 :: "fftw_release \<Rightarrow> bool" where
  "at_least_3 F2_1_5 = False"
| "at_least_3 _ = True"

fun upto_2 :: "fftw_release \<Rightarrow> bool" where
  "upto_2 F2_1_5 = True"
| "upto_2 _ = False"

text \<open>An fftw Spec; the fields \<open>v_float\<close> to \<open>v_pfft_patches\<close> are the selected values of
  the variants float, double, long_double, quad, openmp, mpi and pfft_patches.\<close>

record fftw_spec = spec +
  fftw_version :: fftw_release
  v_float :: bool
  v_double :: bool
  v_long_double :: bool
  v_quad :: bool
  v_openmp :: bool
  v_mpi :: bool
  v_pfft_patches :: bool

subsection \<open>The property \<open>libs\<close>\<close>

text \<open>\<open>find_libraries\<close> searches the file system; it is a parameter, called with the
  library names, the root, \<open>shared\<close> and \<open>recurse\<close>. \<open>extra_parameters\<close> is
  \<open>self.spec.last_query.extra_parameters\<close>, a list of strings.\<close>

definition libs_fftw ::
  "(string list \<Rightarrow> string \<Rightarrow> bool \<Rightarrow> bool \<Rightarrow> string list) \<Rightarrow> string \<Rightarrow> string list \<Rightarrow> string list" where
  "libs_fftw find_libraries prefix extra_parameters =
     (let shared = (if ''static'' \<in> set extra_parameters then False else True)
      in find_libraries [''libfftw3''] prefix shared True)"

subsection \<open>\<open>autoreconf\<close>, \<open>configure\<close>, \<open>build\<close>, \<open>check\<close>, \<open>install\<close>\<close>

text \<open>
  The steps of the recipe give the external commands they issue, in order, each command
  taken to succeed. \<open>working_dir(d, create=True)\<close> creates \<open>d\<close> when it is missing;
  \<open>working_dir(d)\<close> raises \<open>OSError\<close> when \<open>d\<close> does not exist. The set \<open>dirs\<close> holds the
  subdirectories of the build directory that exist.
\<close>

definition autoreconf :: "fftw_spec \<Rightarrow> invocation list" where
  "autoreconf s =
     (if v_pfft_patches s then [\<lparr>wdir = ''.'', command = ''autoreconf'', args = [''-ifv'']\<rparr>]
      else [])"

definition base_options :: "fftw_spec \<Rightarrow> string \<Rightarrow> string list" where
  "base_options s prefix =
     [''--prefix='' @ prefix, ''--enable-shared'', ''--enable-threads'']
     @ (if \<not> truthy (f77 (compiler s)) \<or> \<not> truthy (fc (compiler s))
        then [''--disable-fortran''] else [])
     @ (if upto_2 (fftw_version s) then [''--enable-type-prefix''] else [])"

text \<open>Lines 88 to 111: the options common to every precision.\<close>

definition configure_options :: "fftw_spec \<Rightarrow> string \<Rightarrow> error + string list" where
  "configure_options s prefix =
     (let options = base_options s prefix;
          mpi_option = (if v_mpi s then [''--enable-mpi''] else [])
      in if v_openmp s then
           (if has_compiler s ''clang'' \<and> endswith (version_str (compiler s)) ''-apple''
            then Inl (InstallError ''Apple's clang does not support OpenMP'')
            else Inr ((if upto_2 (fftw_version s)
                       then [''CFLAGS='' @ openmp_flag (compiler s)] else [])
                      @ options @ [''--enable-openmp''] @ mpi_option))
         else Inr (options @ mpi_option))"

text \<open>Lines 115 to 119: \<open>'x86_64' in spec.architecture\<close> looks for the text in the string
  form of the architecture.\<close>

definition simd_options :: "fftw_spec \<Rightarrow> string list" where
  "simd_options s =
     (if str_contains ''x86_64'' (architecture s) \<and> at_least_3 (fftw_version s)
      then [''--enable-sse2''] else [])"

definition configure_in :: "string \<Rightarrow> string list \<Rightarrow> invocation" where
  "configure_in d a = \<lparr>wdir = d, command = ''../configure'', args = a\<rparr>"

definition configure ::
  "fftw_spec \<Rightarrow> string \<Rightarrow> string set \<Rightarrow> error + string set \<times> invocation list" where
  "configure s prefix dirs =
     (case configure_options s prefix of
        Inl e \<Rightarrow> Inl e
      | Inr options \<Rightarrow>
          let p =
            (if v_double s then [configure_in ''double'' (options @ simd_options s)] else [])
            @ (if v_float s
               then [configure_in ''float'' (''--enable-float'' # options @ simd_options s)]
               else [])
            @ (if at_least_3 (fftw_version s) \<and> v_long_double s
               then [configure_in ''long-double'' (''--enable-long-double'' # options)] else [])
            @ (if at_least_3 (fftw_version s) \<and> v_quad s
               then [configure_in ''quad'' (''--enable-quad-precision'' # options)] else [])
          in Inr (dirs \<union> set (map wdir p), p))"

text \<open>\<open>build\<close>, \<open>check\<close> and \<open>install\<close> walk the same four tests in the same order and run
  \<open>make\<close> with no argument, with \<open>check\<close> and with \<open>install\<close>.\<close>

definition precisions :: "fftw_spec \<Rightarrow> string list" where
  "precisions s =
     (if v_double s then [''double''] else [])
     @ (if v_float s then [''float''] else [])
     @ (if v_long_double s then [''long-double''] else [])
     @ (if v_quad s then [''quad''] else [])"

fun make_each :: "string list \<Rightarrow> string list \<Rightarrow> string set \<Rightarrow> error + invocation list" where
  "make_each [] a dirs = Inr []"
| "make_each (d # ds) a dirs =
     (if d \<in> dirs then
        (case make_each ds a dirs of
           Inl e \<Rightarrow> Inl e
         | Inr p \<Rightarrow> Inr (\<lparr>wdir = d, command = ''make'', args = a\<rparr> # p))
      else Inl (OSError d))"

definition build :: "fftw_spec \<Rightarrow> string set \<Rightarrow> error + invocation list" where
  "build s dirs = make_each (precisions s) [] dirs"

definition check :: "fftw_spec \<Rightarrow> string set \<Rightarrow> error + invocation list" where
  "check s dirs = make_each (precisions s) [''check''] dirs"

definition fftw_install :: "fftw_spec \<Rightarrow> string set \<Rightarrow> error + invocation list" where
  "fftw_install s dirs = make_each (precisions s) [''install''] dirs"

section \<open>vasp\<close>

text \<open>\<open>spack_env\<close> and \<open>run_env\<close> collect the modifications a recipe asks for; \<open>set\<close> adds one
  assignment. \<open>apply_mods\<close> carries the assignments out on an environment, in order.\<close>

datatype env_mod = SetEnv string string

definition setup_environment ::
  "string \<Rightarrow> env_mod list \<Rightarrow> env_mod list \<Rightarrow> env_mod list \<times> env_mod list" where
  "setup_environment prefix spack_env run_env =
     (spack_env @ [SetEnv ''CRAYPE_LINK_TYPE'' ''static'', SetEnv ''INSTALL_DIR'' prefix],
      run_env)"

fun apply_mods :: "env_mod list \<Rightarrow> (string \<rightharpoonup> string) \<Rightarrow> (string \<rightharpoonup> string)" where
  "apply_mods [] e = e"
| "apply_mods (SetEnv k v # ms) e = apply_mods ms (e(k \<mapsto> v))"

definition vasp_install :: "'a spec_scheme \<Rightarrow> string \<Rightarrow> action list" where
  "vasp_install s prefix = [Run \<lparr>wdir = ''.'', command = ''make'', args = [''all'']\<rparr>]"

section \<open>Notions used in the statements\<close>

text \<open>The defines and libraries the small-matrix block contributes when it succeeds.\<close>

definition smm_dflags :: "cp2k_spec \<Rightarrow> string list" where
  "smm_dflags s =
     (if smm s = Libsmm then [''-D__HAS_smm_dnn'', ''-D__HAS_smm_vec'']
      else if smm s = Libxsmm then [''-D__LIBXSMM''] else [])"

definition smm_libs :: "cp2k_spec \<Rightarrow> (string \<rightharpoonup> string) \<Rightarrow> string list" where
  "smm_libs s env =
     (if smm s = Libsmm then (case env ''LIBSMM_PATH'' of None \<Rightarrow> [] | Some p \<Rightarrow> [p])
      else if smm s = Libxsmm then dep_libs s ''libxsmm'' else [])"

text \<open>The compile template of a compiler: its entry in the table, followed by the flags
  the compiler-specific branch appends for C and C++, and for Fortran.\<close>

definition c_template :: "cp2k_spec \<Rightarrow> string list" where
  "c_template s =
     the (optflags (name (compiler s)))
     @ (if has_compiler s ''intel'' then [''-fp-model precise''] else [])"

definition fc_template :: "cp2k_spec \<Rightarrow> string list" where
  "fc_template s =
     the (optflags (name (compiler s)))
     @ (if has_compiler s ''intel''
        then [''-fp-model source'', ''-heap-arrays 64'',
              ''-diag-disable 8290,8291,10010,10212,11060'', ''-free'', ''-fpp'']
        else if has_compiler s ''gcc'' then [''-ffree-form'', ''-ffree-line-length-none'']
        else [])"

text \<open>The channels in closed form: what each list holds when \<open>write_makefile\<close> succeeds,
  written as one concatenation in the order of the appends.\<close>

definition all_dflags :: "cp2k_spec \<Rightarrow> string list" where
  "all_dflags s =
     base_dflags s @ (if in_intel_mkl s then [''-D__FFTSG''] else [])
     @ (if has_compiler s ''intel'' then intel_dflags else [])
     @ (if mpi s then mpi_dflags s else [])
     @ smm_dflags s
     @ (if plumed s then [''-D__PLUMED2''] else [])"

definition all_fcflags :: "cp2k_spec \<Rightarrow> string list" where
  "all_fcflags s =
     fc_template s
     @ [dep_cpp_flags s (with_static s ''fftw''), dep_cpp_flags s (with_static s ''libxc:fortran'')]
     @ (if mpi s then mpi_fcflags s else [])
     @ (if smm s = Libxsmm then [dep_cpp_flags s ''libxsmm''] else [])
     @ all_dflags s"

definition all_ldflags :: "cp2k_spec \<Rightarrow> string list" where
  "all_ldflags s =
     (if mpi s \<and> in_superlu_dist_4_3 s then [''-Wl,--allow-multiple-definition''] else [])
     @ [base_search_flags s]
     @ (if mpi s then [search_flags s (scalapack_libs s)] else [])
     @ (if smm s = Libxsmm then [search_flags s (dep_libs s ''libxsmm'')] else [])"

definition all_libs :: "cp2k_spec \<Rightarrow> (string \<rightharpoonup> string) \<Rightarrow> string list" where
  "all_libs s env =
     dep_libs s (with_static s ''libint'')
     @ (if mpi s then mpi_libs s @ (if in_wannier90 s then [wannier s] else []) else [])
     @ smm_libs s env
     @ (if plumed s then dep_libs s ''plumed'' else [])
     @ libxc_libs s @ fftw_libs s @ lapack_libs s @ blas_libs s"

text \<open>The flags of the channels that are made of the compile template and the defines
  only; the header flags the resolver supplies, which enter the Fortran channel as they
  are; and the absence of a define \<open>d\<close> from the flag set: it is in none of the former
  channels, and it is in the Fortran channel only if the resolver supplied it as a header
  flag.\<close>

definition compile_flags :: "build \<Rightarrow> string set" where
  "compile_flags b = set (dflags b) \<union> set (cppflags b) \<union> set (cflags b) \<union> set (cxxflags b)"

definition header_flags :: "cp2k_spec \<Rightarrow> string set" where
  "header_flags s =
     {dep_cpp_flags s (with_static s ''fftw''), dep_cpp_flags s (with_static s ''libxc:fortran''),
      dep_cpp_flags s ''libxsmm''}"

definition absent :: "string \<Rightarrow> cp2k_spec \<Rightarrow> build \<Rightarrow> bool" where
  "absent d s b = (d \<notin> compile_flags b \<and> (d \<in> set (fcflags b) \<longrightarrow> d \<in> header_flags s))"

text \<open>One flag set is below another when each channel of the first, read as a set, is
  contained in the same channel of the second.\<close>

definition flags_subset :: "build \<Rightarrow> build \<Rightarrow> bool" where
  "flags_subset a b =
     (set (dflags a) \<subseteq> set (dflags b) \<and> set (cppflags a) \<subseteq> set (cppflags b)
      \<and> set (cflags a) \<subseteq> set (cflags b) \<and> set (cxxflags a) \<subseteq> set (cxxflags b)
      \<and> set (fcflags a) \<subseteq> set (fcflags b) \<and> set (ldflags a) \<subseteq> set (ldflags b)
      \<and> set (libs a) \<subseteq> set (libs b))"

text \<open>The options a plan of fftw passes to \<open>configure\<close>, over all its invocations.\<close>

definition plan_options :: "invocation list \<Rightarrow> string set" where
  "plan_options p = set (concat (map args p))"

text \<open>The lines of a text, as \<open>text.split('\n')\<close> gives them (\<open>lines_from cur t\<close> reads \<open>t\<close>
  with \<open>cur\<close> the current line so far, reversed); a blank line holds nothing but
  spaces; a \<open>KEY = value\<close> line starts with a key of letters, digits and underscores,
  followed by \<open>' = '\<close>.\<close>

fun lines_from :: "string \<Rightarrow> string \<Rightarrow> string list" where
  "lines_from cur [] = [rev cur]"
| "lines_from cur (c # cs) =
     (if c = CHR ''\<newline>'' then rev cur # lines_from [] cs else lines_from (c # cur) cs)"

definition split_lines :: "string \<Rightarrow> string list" where
  "split_lines t = lines_from [] t"

definition blank :: "string \<Rightarrow> bool" where
  "blank l = list_all (\<lambda>c. c = CHR '' '') l"

definition is_key_char :: "char \<Rightarrow> bool" where
  "is_key_char c =
     (c \<in> set ''ABCDEFGHIJKLMNOPQRSTUVWXYZabcdefghijklmnopqrstuvwxyz0123456789_'')"

definition key_value_line :: "string \<Rightarrow> bool" where
  "key_value_line l =
     (let k = takeWhile is_key_char l
      in k \<noteq> [] \<and> take 3 (drop (length k) l) = '' = '')"

definition all_key_value :: "string \<Rightarrow> bool" where
  "all_key_value t = list_all (\<lambda>l. blank l \<or> key_value_line l) (split_lines t)"

definition no_newline :: "string \<Rightarrow> bool" where
  "no_newline x = (CHR ''\<newline>'' \<notin> set x)"

text \<open>The strings \<open>write_makefile\<close> puts on the right of a line: the compiler commands, the
  path of the PLUMED include file, and every flag of the flag set.\<close>

definition written_values :: "cp2k_spec \<Rightarrow> build \<Rightarrow> string list" where
  "written_values s b =
     [str_opt (cc (compiler s)), fc_command s, plumed_inc s]
     @ dflags b @ cflags b @ cxxflags b @ fcflags b @ ldflags b @ libs b"

section \<open>Concrete specifications\<close>

definition gcc :: compiler where
  "gcc = \<lparr>name = ''gcc'', version_str = ''7.2.0'', cc = Some ''/usr/bin/gcc'',
           f77 = Some ''/usr/bin/gfortran'', fc = Some ''/usr/bin/gfortran'',
           stdcxx_libs = [''-lstdc++''], openmp_flag = ''-fopenmp''\<rparr>"

definition clang :: compiler where
  "clang = \<lparr>name = ''clang'', version_str = ''9.0.0-apple'', cc = Some ''/usr/bin/clang'',
             f77 = None, fc = None, stdcxx_libs = [''-lstdc++''], openmp_flag = ''-fopenmp''\<rparr>"

text \<open>A resolver that installs the package \<open>p\<close> under \<open>/opt/p\<close>: a query \<open>p:...\<close> ending
  in \<open>static\<close> is answered with the archive, any other with the shared object.\<close>

definition query_name :: "string \<Rightarrow> string" where
  "query_name q = takeWhile (\<lambda>c. c \<noteq> CHR '':'') q"

definition opt_libs :: "string \<Rightarrow> string list" where
  "opt_libs q =
     [''/opt/'' @ query_name q @ ''/lib/lib'' @ query_name q
      @ (if endswith q ''static'' then ''.a'' else ''.so'')]"

definition dirname :: "string \<Rightarrow> string" where
  "dirname f = rev (tl (dropWhile (\<lambda>c. c \<noteq> CHR ''/'') (rev f)))"

definition opt_search_flags :: "string list \<Rightarrow> string" where
  "opt_search_flags l = join '' '' (map (\<lambda>f. ''-L'' @ dirname f) l)"

text \<open>cp2k 5.1 with the default variants (static, mpi, smm=libxsmm, no plumed), built with
  gcc against an MPI 3 library, elpa 2016.05.004 and superlu-dist 4.3.\<close>

definition cp2k_default :: cp2k_spec where
  "cp2k_default =
     \<lparr>architecture = ''linux-ubuntu16.04-x86_64'', compiler = gcc, version = V5_1,
      static = True, mpi = True, smm = Libxsmm, plumed = False,
      prefix_data = ''/opt/cp2k/data'', prefix_bin = ''/opt/cp2k/bin'',
      dep_libs = opt_libs,
      dep_cpp_flags = (\<lambda>q. ''-I/opt/'' @ query_name q @ ''/include''),
      dep_prefix = (\<lambda>q. ''/opt/'' @ query_name q),
      dep_prefix_lib = (\<lambda>q. ''/opt/'' @ query_name q @ ''/lib''),
      search_flags = opt_search_flags,
      in_intel_mkl = False, in_mpi_3 = True, in_mpi_2 = True, in_superlu_dist_4_3 = True,
      in_wannier90 = False, elpa_upto_2014_5 = False, elpa_2014_6_to_2015_10 = False,
      elpa_version0 = 2016, elpa_version1 = 5, elpa_version_str = ''2016.05.004'',
      mpifc = ''/opt/mpi/bin/mpif90''\<rparr>"

definition cp2k_serial :: cp2k_spec where
  "cp2k_serial = cp2k_default\<lparr>mpi := False\<rparr>"

definition cp2k_libsmm :: cp2k_spec where
  "cp2k_libsmm = cp2k_default\<lparr>smm := Libsmm\<rparr>"

definition cp2k_clang_libsmm :: cp2k_spec where
  "cp2k_clang_libsmm = cp2k_default\<lparr>compiler := clang, smm := Libsmm\<rparr>"

definition cp2k_plumed :: cp2k_spec where
  "cp2k_plumed = cp2k_default\<lparr>plumed := True\<rparr>"

definition cp2k_shared :: cp2k_spec where
  "cp2k_shared = cp2k_default\<lparr>static := False\<rparr>"

text \<open>Environments and file systems: nothing set and no file, and \<open>LIBSMM_PATH\<close> pointing to
  \<open>/opt/libsmm/libsmm.a\<close>, the only file.\<close>

definition no_env :: "string \<rightharpoonup> string" where
  "no_env = Map.empty"

definition no_file :: "string \<Rightarrow> bool" where
  "no_file p = False"

definition libsmm_env :: "string \<rightharpoonup> string" where
  "libsmm_env = [''LIBSMM_PATH'' \<mapsto> ''/opt/libsmm/libsmm.a'']"

definition libsmm_file :: "string \<Rightarrow> bool" where
  "libsmm_file p = (p = ''/opt/libsmm/libsmm.a'')"

definition pwd_env :: "string \<rightharpoonup> string" where
  "pwd_env = [''PWD'' \<mapsto> ''/home/user'']"

definition make_ok :: "invocation \<Rightarrow> (string \<rightharpoonup> string) \<Rightarrow> error option" where
  "make_ok i e = None"

text \<open>fftw 3.3.7 and fftw 2.1.5 with the default variants (float, double, long_double, mpi),
  and fftw 3.3.7 with openmp under Apple's clang.\<close>

definition fftw_3 :: fftw_spec where
  "fftw_3 =
     \<lparr>architecture = ''linux-ubuntu16.04-x86_64'', compiler = gcc, fftw_version = F3_3_7,
      v_float = True, v_double = True, v_long_double = True, v_quad = False,
      v_openmp = False, v_mpi = True, v_pfft_patches = False\<rparr>"

definition fftw_2 :: fftw_spec where
  "fftw_2 = fftw_3\<lparr>fftw_version := F2_1_5\<rparr>"

definition fftw_apple_openmp :: fftw_spec where
  "fftw_apple_openmp = fftw_3\<lparr>compiler := clang, v_openmp := True\<rparr>"

text \<open>A file system in which every library of a package lies under \<open>lib\<close> in its
  prefix, as a shared object and as an archive.\<close>

definition find_in_lib :: "string list \<Rightarrow> string \<Rightarrow> bool \<Rightarrow> bool \<Rightarrow> string list" where
  "find_in_lib names root shared recurse =
     map (\<lambda>n. root @ ''/lib/'' @ n @ (if shared then ''.so'' else ''.a'')) names"

section \<open>How \<open>write_makefile\<close> fails and what it builds\<close>

text \<open>The table lists gcc and intel only; \<open>start_flags\<close> fails on any other compiler and
  succeeds on these two.\<close>

lemma start_flags_unknown:
  "name (compiler s) \<noteq> ''gcc'' \<Longrightarrow> name (compiler s) \<noteq> ''intel'' \<Longrightarrow>
   start_flags s = Inl (KeyError (name (compiler s)))"
  by (simp add: start_flags_def optflags_def)

lemma start_flags_known:
  assumes "name (compiler s) = ''gcc'' \<or> name (compiler s) = ''intel''"
  shows "start_flags s =
    Inr \<lparr>dflags = base_dflags s @ (if in_intel_mkl s then [''-D__FFTSG''] else [])
                   @ (if has_compiler s ''intel'' then intel_dflags else []),
         cppflags = [], cflags = c_template s, cxxflags = c_template s,
         fcflags = fc_template s, ldflags = [], libs = [], mkf = []\<rparr>"
  using assms
  by (auto simp add: start_flags_def optflags_def has_compiler_def c_template_def
      fc_template_def)

lemma start_flags_Inr:
  assumes "start_flags s = Inr b"
  shows "name (compiler s) = ''gcc'' \<or> name (compiler s) = ''intel''"
proof (rule ccontr)
  assume "\<not> ?thesis"
  then have "start_flags s = Inl (KeyError (name (compiler s)))"
    by (simp add: start_flags_unknown)
  with assms show False by simp
qed

lemma smm_block_Inr:
  assumes "smm_block s env isfile b = Inr b'"
  shows "b' = b\<lparr>dflags := dflags b @ smm_dflags s,
               fcflags := fcflags b @ (if smm s = Libxsmm then [dep_cpp_flags s ''libxsmm''] else []),
               ldflags := ldflags b @ (if smm s = Libxsmm
                            then [search_flags s (dep_libs s ''libxsmm'')] else []),
               libs := libs b @ smm_libs s env\<rparr>"
  using assms
  by (auto simp add: smm_block_def smm_dflags_def smm_libs_def ll_add_def
      split: if_splits option.splits)

lemma smm_block_result:
  "smm_block s env isfile b =
     (if smm s = Libsmm then
        (case env ''LIBSMM_PATH'' of None \<Rightarrow> Inl libsmm_unset
         | Some p \<Rightarrow> if isfile p then
             Inr (b\<lparr>dflags := dflags b @ smm_dflags s, libs := libs b @ smm_libs s env\<rparr>)
           else Inl libsmm_not_a_file)
      else Inr (b\<lparr>dflags := dflags b @ smm_dflags s,
               fcflags := fcflags b @ (if smm s = Libxsmm then [dep_cpp_flags s ''libxsmm''] else []),
               ldflags := ldflags b @ (if smm s = Libxsmm
                            then [search_flags s (dep_libs s ''libxsmm'')] else []),
               libs := libs b @ smm_libs s env\<rparr>))"
  by (cases "smm s") (auto simp add: smm_block_def smm_dflags_def smm_libs_def ll_add_def
      split: option.splits)

lemma write_makefile_unknown:
  "name (compiler s) \<noteq> ''gcc'' \<Longrightarrow> name (compiler s) \<noteq> ''intel'' \<Longrightarrow>
   write_makefile s env isfile = Inl (KeyError (name (compiler s)))"
  by (simp add: write_makefile_def start_flags_unknown)

lemma write_makefile_known:
  assumes "name (compiler s) = ''gcc'' \<or> name (compiler s) = ''intel''"
  shows "write_makefile s env isfile =
     (if smm s = Libsmm \<and> env ''LIBSMM_PATH'' = None then Inl libsmm_unset
      else if smm s = Libsmm \<and> \<not> isfile (the (env ''LIBSMM_PATH'')) then Inl libsmm_not_a_file
      else Inr (finish s (plumed_block s (projr (smm_block s env isfile
                  (mpi_block s (dep_block s (projr (start_flags s)))))))))"
  by (auto simp add: write_makefile_def start_flags_known[OF assms] smm_block_result
      split: option.splits)

lemma write_makefile_Inr:
  assumes "write_makefile s env isfile = Inr b"
  obtains b0 b1 where "start_flags s = Inr b0"
    and "smm_block s env isfile (mpi_block s (dep_block s b0)) = Inr b1"
    and "b = finish s (plumed_block s b1)"
  using assms by (auto simp add: write_makefile_def split: sum.splits)


lemma dep_block_fields:
  "dflags (dep_block s b) = dflags b" "cppflags (dep_block s b) = cppflags b"
  "cflags (dep_block s b) = cflags b" "cxxflags (dep_block s b) = cxxflags b"
  "fcflags (dep_block s b) = fcflags b @ [dep_cpp_flags s (with_static s ''fftw''),
                                dep_cpp_flags s (with_static s ''libxc:fortran'')]"
  "ldflags (dep_block s b) = [base_search_flags s]"
  "libs (dep_block s b) = dep_libs s (with_static s ''libint'')"
  "mkf (dep_block s b) = mkf b"
  by (simp_all add: dep_block_def)

lemma mpi_block_fields:
  "dflags (mpi_block s b) = dflags b @ (if mpi s then mpi_dflags s else [])"
  "cppflags (mpi_block s b) = cppflags b"
  "cflags (mpi_block s b) = cflags b" "cxxflags (mpi_block s b) = cxxflags b"
  "fcflags (mpi_block s b) = fcflags b @ (if mpi s then mpi_fcflags s else [])"
  "ldflags (mpi_block s b) =
     (if mpi s \<and> in_superlu_dist_4_3 s then [''-Wl,--allow-multiple-definition''] else [])
     @ ldflags b @ (if mpi s then [search_flags s (scalapack_libs s)] else [])"
  "libs (mpi_block s b) =
     libs b @ (if mpi s then mpi_libs s @ (if in_wannier90 s then [wannier s] else []) else [])"
  "mkf (mpi_block s b) = mkf b"
  by (simp_all add: mpi_block_def ll_add_def)

lemma plumed_block_fields:
  "dflags (plumed_block s b) = dflags b @ (if plumed s then [''-D__PLUMED2''] else [])"
  "cppflags (plumed_block s b) = cppflags b"
  "cflags (plumed_block s b) = cflags b" "cxxflags (plumed_block s b) = cxxflags b"
  "fcflags (plumed_block s b) = fcflags b" "ldflags (plumed_block s b) = ldflags b"
  "libs (plumed_block s b) = libs b @ (if plumed s then dep_libs s ''plumed'' else [])"
  "mkf (plumed_block s b) =
     mkf b @ (if plumed s then [''include '' @ plumed_inc s @ ''\<newline>\<newline>''] else [])"
  by (simp_all add: plumed_block_def mkf_write_def ll_add_def)

lemma finish_fields:
  "dflags (finish s b) = dflags b"
  "cppflags (finish s b) = cppflags b @ dflags b"
  "cflags (finish s b) = cflags b @ cppflags b @ dflags b"
  "cxxflags (finish s b) = cxxflags b @ cppflags b @ dflags b"
  "fcflags (finish s b) = fcflags b @ cppflags b @ dflags b"
  "ldflags (finish s b) = ldflags b"
  "libs (finish s b) = libs b @ libxc_libs s @ fftw_libs s @ lapack_libs s @ blas_libs s"
  "mkf (finish s b) = mkf b @ tool_lines s @ flag_lines s (finish s b)"
  by (simp_all add: finish_def propagate_def Let_def ll_add_def flag_lines_def)

lemma smm_block_fields:
  assumes "smm_block s env isfile b = Inr b'"
  shows "dflags b' = dflags b @ smm_dflags s"
    and "cppflags b' = cppflags b" and "cflags b' = cflags b" and "cxxflags b' = cxxflags b"
    and "fcflags b' = fcflags b @ (if smm s = Libxsmm then [dep_cpp_flags s ''libxsmm''] else [])"
    and "ldflags b' = ldflags b @ (if smm s = Libxsmm
                            then [search_flags s (dep_libs s ''libxsmm'')] else [])"
    and "libs b' = libs b @ smm_libs s env"
    and "mkf b' = mkf b"
  by (simp_all add: smm_block_Inr[OF assms])

lemma start_flags_fields:
  assumes "start_flags s = Inr b"
  shows "dflags b = base_dflags s @ (if in_intel_mkl s then [''-D__FFTSG''] else [])
                   @ (if has_compiler s ''intel'' then intel_dflags else [])"
    and "cppflags b = []" and "cflags b = c_template s" and "cxxflags b = c_template s"
    and "fcflags b = fc_template s" and "ldflags b = []" and "libs b = []" and "mkf b = []"
proof -
  have k: "name (compiler s) = ''gcc'' \<or> name (compiler s) = ''intel''"
    using assms by (rule start_flags_Inr)
  have e: "b = \<lparr>dflags = base_dflags s @ (if in_intel_mkl s then [''-D__FFTSG''] else [])
                   @ (if has_compiler s ''intel'' then intel_dflags else []),
         cppflags = [], cflags = c_template s, cxxflags = c_template s,
         fcflags = fc_template s, ldflags = [], libs = [], mkf = []\<rparr>"
    using assms start_flags_known[OF k] by simp
  show "dflags b = base_dflags s @ (if in_intel_mkl s then [''-D__FFTSG''] else [])
                   @ (if has_compiler s ''intel'' then intel_dflags else [])"
    and "cppflags b = []" and "cflags b = c_template s" and "cxxflags b = c_template s"
    and "fcflags b = fc_template s" and "ldflags b = []" and "libs b = []" and "mkf b = []"
    by (simp_all add: e split del: if_split)
qed

lemma write_makefile_channels:
  assumes "write_makefile s env isfile = Inr b"
  shows "dflags b = all_dflags s" and "cppflags b = all_dflags s"
    and "cflags b = c_template s @ all_dflags s"
    and "cxxflags b = c_template s @ all_dflags s"
    and "fcflags b = all_fcflags s"
    and "ldflags b = all_ldflags s"
    and "libs b = all_libs s env"
    and "mkf b = (if plumed s then [''include '' @ plumed_inc s @ ''\<newline>\<newline>''] else [])
                 @ tool_lines s @ flag_lines s b"
proof -
  from assms obtain b0 b1 where b0: "start_flags s = Inr b0"
    and b1: "smm_block s env isfile (mpi_block s (dep_block s b0)) = Inr b1"
    and b: "b = finish s (plumed_block s b1)"
    by (rule write_makefile_Inr)
  note f = finish_fields plumed_block_fields smm_block_fields[OF b1] mpi_block_fields
    dep_block_fields start_flags_fields[OF b0]
  show "dflags b = all_dflags s"
    unfolding b all_dflags_def by (simp only: f append_assoc)
  show "cppflags b = all_dflags s"
    unfolding b all_dflags_def by (simp only: f append_assoc append_Nil)
  show "cflags b = c_template s @ all_dflags s"
    unfolding b all_dflags_def by (simp only: f append_assoc append_Nil)
  show "cxxflags b = c_template s @ all_dflags s"
    unfolding b all_dflags_def by (simp only: f append_assoc append_Nil)
  show "fcflags b = all_fcflags s"
    unfolding b all_dflags_def all_fcflags_def by (simp only: f append_assoc append_Nil)
  show "ldflags b = all_ldflags s"
    unfolding b all_ldflags_def by (simp only: f append_assoc append_Nil append_Cons)
  show "libs b = all_libs s env"
    unfolding b all_libs_def by (simp only: f append_assoc append_Nil)
  show "mkf b = (if plumed s then [''include '' @ plumed_inc s @ ''\<newline>\<newline>''] else [])
                 @ tool_lines s @ flag_lines s b"
    unfolding b by (simp only: f append_assoc append_Nil)
qed

section \<open>Errors of the translation\<close>

lemma dom_optflags: "dom optflags = {''gcc'', ''intel''}"
  by (auto simp add: optflags_def dom_def split: if_splits)

lemma libsmm_errors_distinct:
  "libsmm_unset \<noteq> KeyError ''gcc''" "libsmm_unset \<noteq> KeyError ''intel''"
  "libsmm_not_a_file \<noteq> KeyError n"
  by (simp_all add: libsmm_unset_def libsmm_not_a_file_def)

lemma install_fails_with:
  "write_makefile s env isfile = Inl e \<Longrightarrow> install run_make s cwd env isfile = Inl e"
  by (simp add: install_def)

text \<open>
  Claim C2. The optimisation table lists exactly gcc and intel. For a Spec whose compiler
  is not in the table, \<open>write_makefile\<close> (and so \<open>install\<close>) fails with the \<open>KeyError\<close> of the
  table lookup, carrying the compiler's name; no default is chosen. For a Spec whose
  compiler is gcc or intel that error is never raised, whatever the variants and the
  answers of the resolver: the makefile is produced, or, with smm=libsmm, one of the two
  errors about \<open>LIBSMM_PATH\<close> is raised.
\<close>

theorem compiler_table_decides:
  "dom optflags = {''gcc'', ''intel''}
   \<and> (name (compiler s) \<notin> dom optflags \<longrightarrow>
        write_makefile s env isfile = Inl (KeyError (name (compiler s)))
        \<and> install run_make s cwd env isfile = Inl (KeyError (name (compiler s))))
   \<and> (name (compiler s) \<in> dom optflags \<longrightarrow>
        write_makefile s env isfile \<noteq> Inl (KeyError (name (compiler s)))
        \<and> ((\<exists>b. write_makefile s env isfile = Inr b)
             \<or> smm s = Libsmm \<and> (write_makefile s env isfile = Inl libsmm_unset
                                  \<or> write_makefile s env isfile = Inl libsmm_not_a_file)))"
proof (intro conjI impI)
  show "dom optflags = {''gcc'', ''intel''}" by (rule dom_optflags)
next
  assume "name (compiler s) \<notin> dom optflags"
  then have u: "name (compiler s) \<noteq> ''gcc''" "name (compiler s) \<noteq> ''intel''"
    by (simp_all add: dom_optflags)
  then show w: "write_makefile s env isfile = Inl (KeyError (name (compiler s)))"
    by (rule write_makefile_unknown)
  then show "install run_make s cwd env isfile = Inl (KeyError (name (compiler s)))"
    by (rule install_fails_with)
next
  assume "name (compiler s) \<in> dom optflags"
  then have k: "name (compiler s) = ''gcc'' \<or> name (compiler s) = ''intel''"
    by (simp add: dom_optflags)
  note w = write_makefile_known[OF k, of env isfile]
  show "write_makefile s env isfile \<noteq> Inl (KeyError (name (compiler s)))"
    using k libsmm_errors_distinct by (auto simp add: w)
  show "(\<exists>b. write_makefile s env isfile = Inr b)
        \<or> smm s = Libsmm \<and> (write_makefile s env isfile = Inl libsmm_unset
                             \<or> write_makefile s env isfile = Inl libsmm_not_a_file)"
    by (simp add: w)
qed

theorem compiler_table_decides_witness:
  "name (compiler cp2k_clang_libsmm) \<notin> dom optflags
   \<and> write_makefile cp2k_clang_libsmm no_env no_file = Inl (KeyError ''clang'')
   \<and> name (compiler cp2k_default) \<in> dom optflags
   \<and> write_makefile cp2k_default no_env no_file \<noteq> Inl (KeyError ''gcc'')"
proof -
  have n1: "name (compiler cp2k_clang_libsmm) = ''clang''"
    by (simp add: cp2k_clang_libsmm_def clang_def)
  have n2: "name (compiler cp2k_default) = ''gcc''"
    by (simp add: cp2k_default_def gcc_def)
  note t1 = compiler_table_decides[of cp2k_clang_libsmm no_env no_file make_ok "''/tmp''"]
  note t2 = compiler_table_decides[of cp2k_default no_env no_file make_ok "''/tmp''"]
  from t1 have d: "dom optflags = {''gcc'', ''intel''}" by blast
  have m1: "name (compiler cp2k_clang_libsmm) \<notin> dom optflags" by (simp add: n1 d)
  have m2: "name (compiler cp2k_default) \<in> dom optflags" by (simp add: n2 d)
  from t1 m1 have "write_makefile cp2k_clang_libsmm no_env no_file
                   = Inl (KeyError (name (compiler cp2k_clang_libsmm)))" by blast
  moreover from t2 m2 have "write_makefile cp2k_default no_env no_file
                   \<noteq> Inl (KeyError (name (compiler cp2k_default)))" by blast
  ultimately show ?thesis using m1 m2 by (simp add: n1 n2)
qed

text \<open>
  Claim C1, amended. For a cp2k Spec with smm=libsmm whose compiler is gcc or intel:
  when \<open>LIBSMM_PATH\<close> is unset \<open>write_makefile\<close> and \<open>install\<close> fail with the \<open>KeyError\<close> that
  asks for the variable; when it is set to a path that is not an existing file they fail
  with the \<open>IOError\<close> about the missing file; when it refers to an existing file the
  makefile is produced, \<open>-D__HAS_smm_dnn\<close> and \<open>-D__HAS_smm_vec\<close> are among the defines,
  the defines are part of every compile channel, and the file is among the link libraries.
\<close>

theorem libsmm_path_checked:
  assumes "smm s = Libsmm" and "name (compiler s) = ''gcc'' \<or> name (compiler s) = ''intel''"
  shows "(env ''LIBSMM_PATH'' = None \<longrightarrow>
            write_makefile s env isfile = Inl libsmm_unset
            \<and> install run_make s cwd env isfile = Inl libsmm_unset)
       \<and> (\<forall>p. env ''LIBSMM_PATH'' = Some p \<and> \<not> isfile p \<longrightarrow>
            write_makefile s env isfile = Inl libsmm_not_a_file
            \<and> install run_make s cwd env isfile = Inl libsmm_not_a_file)
       \<and> (\<forall>p. env ''LIBSMM_PATH'' = Some p \<and> isfile p \<longrightarrow>
            (\<exists>b. write_makefile s env isfile = Inr b
                 \<and> ''-D__HAS_smm_dnn'' \<in> set (dflags b) \<and> ''-D__HAS_smm_vec'' \<in> set (dflags b)
                 \<and> set (dflags b) \<subseteq> set (cppflags b) \<inter> set (cflags b) \<inter> set (cxxflags b)
                                      \<inter> set (fcflags b)
                 \<and> p \<in> set (libs b)))"
proof (intro conjI allI impI)
  note w = write_makefile_known[OF assms(2), of env isfile]
  {
    assume "env ''LIBSMM_PATH'' = None"
    then show u: "write_makefile s env isfile = Inl libsmm_unset"
      using assms(1) by (simp add: w)
    then show "install run_make s cwd env isfile = Inl libsmm_unset"
      by (rule install_fails_with)
  }
  {
    fix p assume "env ''LIBSMM_PATH'' = Some p \<and> \<not> isfile p"
    then show u: "write_makefile s env isfile = Inl libsmm_not_a_file"
      using assms(1) by (simp add: w)
    then show "install run_make s cwd env isfile = Inl libsmm_not_a_file"
      by (rule install_fails_with)
  }
  {
    fix p assume p: "env ''LIBSMM_PATH'' = Some p \<and> isfile p"
    then obtain b where b: "write_makefile s env isfile = Inr b"
      using assms(1) by (simp add: w)
    note c = write_makefile_channels[OF b]
    have "''-D__HAS_smm_dnn'' \<in> set (dflags b)" "''-D__HAS_smm_vec'' \<in> set (dflags b)"
      using assms(1) by (simp_all add: c all_dflags_def smm_dflags_def)
    moreover have "set (dflags b) \<subseteq> set (cppflags b) \<inter> set (cflags b) \<inter> set (cxxflags b)
                                      \<inter> set (fcflags b)"
      by (auto simp add: c all_fcflags_def)
    moreover have "p \<in> set (libs b)"
      using assms(1) p by (simp add: c all_libs_def smm_libs_def)
    ultimately show "\<exists>b. write_makefile s env isfile = Inr b
                 \<and> ''-D__HAS_smm_dnn'' \<in> set (dflags b) \<and> ''-D__HAS_smm_vec'' \<in> set (dflags b)
                 \<and> set (dflags b) \<subseteq> set (cppflags b) \<inter> set (cflags b) \<inter> set (cxxflags b)
                                      \<inter> set (fcflags b)
                 \<and> p \<in> set (libs b)"
      using b by blast
  }
qed

theorem libsmm_path_checked_witness:
  "smm cp2k_libsmm = Libsmm \<and> name (compiler cp2k_libsmm) = ''gcc''
   \<and> no_env ''LIBSMM_PATH'' = None
   \<and> write_makefile cp2k_libsmm no_env no_file = Inl libsmm_unset
   \<and> libsmm_env ''LIBSMM_PATH'' = Some ''/opt/libsmm/libsmm.a''
   \<and> \<not> no_file ''/opt/libsmm/libsmm.a''
   \<and> write_makefile cp2k_libsmm libsmm_env no_file = Inl libsmm_not_a_file
   \<and> libsmm_file ''/opt/libsmm/libsmm.a''
   \<and> ''/opt/libsmm/libsmm.a'' \<in> set (libs (projr (write_makefile cp2k_libsmm libsmm_env libsmm_file)))"
proof -
  have h1: "smm cp2k_libsmm = Libsmm" by (simp add: cp2k_libsmm_def)
  have n: "name (compiler cp2k_libsmm) = ''gcc''"
    by (simp add: cp2k_libsmm_def cp2k_default_def gcc_def)
  then have h2: "name (compiler cp2k_libsmm) = ''gcc'' \<or> name (compiler cp2k_libsmm) = ''intel''"
    by simp
  have e1: "no_env ''LIBSMM_PATH'' = None" by (simp add: no_env_def)
  have e2: "libsmm_env ''LIBSMM_PATH'' = Some ''/opt/libsmm/libsmm.a''"
    by (simp add: libsmm_env_def)
  have f1: "\<not> no_file ''/opt/libsmm/libsmm.a''" by (simp add: no_file_def)
  have f2: "libsmm_file ''/opt/libsmm/libsmm.a''" by (simp add: libsmm_file_def)
  from libsmm_path_checked[OF h1 h2, of no_env no_file make_ok "''/tmp''"] e1
  have r1: "write_makefile cp2k_libsmm no_env no_file = Inl libsmm_unset" by blast
  from libsmm_path_checked[OF h1 h2, of libsmm_env no_file make_ok "''/tmp''"] e2 f1
  have r2: "write_makefile cp2k_libsmm libsmm_env no_file = Inl libsmm_not_a_file" by blast
  from libsmm_path_checked[OF h1 h2, of libsmm_env libsmm_file make_ok "''/tmp''"] e2 f2
  obtain b where "write_makefile cp2k_libsmm libsmm_env libsmm_file = Inr b"
    and "''/opt/libsmm/libsmm.a'' \<in> set (libs b)" by blast
  then have r3: "''/opt/libsmm/libsmm.a''
      \<in> set (libs (projr (write_makefile cp2k_libsmm libsmm_env libsmm_file)))" by simp
  from h1 n e1 r1 e2 f1 r2 f2 r3 show ?thesis by blast
qed

text \<open>
  Claim C1 as stated, for every Spec with smm=libsmm, fails: under clang with smm=libsmm
  and \<open>LIBSMM_PATH\<close> unset, the lookup of the compiler in the table fails first, and the
  error is the \<open>KeyError\<close> of that lookup, not one of the two errors about
  \<open>LIBSMM_PATH\<close>.
\<close>

theorem libsmm_error_preempted:
  "smm cp2k_clang_libsmm = Libsmm \<and> no_env ''LIBSMM_PATH'' = None
   \<and> write_makefile cp2k_clang_libsmm no_env no_file = Inl (KeyError ''clang'')
   \<and> KeyError ''clang'' \<noteq> libsmm_unset \<and> KeyError ''clang'' \<noteq> libsmm_not_a_file"
proof -
  have n: "name (compiler cp2k_clang_libsmm) = ''clang''"
    by (simp add: cp2k_clang_libsmm_def clang_def)
  have "write_makefile cp2k_clang_libsmm no_env no_file = Inl (KeyError ''clang'')"
    using write_makefile_unknown[of cp2k_clang_libsmm no_env no_file] by (simp add: n)
  moreover have "smm cp2k_clang_libsmm = Libsmm" by (simp add: cp2k_clang_libsmm_def)
  moreover have "no_env ''LIBSMM_PATH'' = None" by (simp add: no_env_def)
  moreover have "KeyError ''clang'' \<noteq> libsmm_unset" "KeyError ''clang'' \<noteq> libsmm_not_a_file"
    by (simp_all add: libsmm_unset_def libsmm_not_a_file_def)
  ultimately show ?thesis by blast
qed

section \<open>Defines of the optional blocks\<close>

text \<open>No flag of a compile template and no include flag of the MPI block starts with
  \<open>-D\<close>; every define of the MPI block does, and differs from every other define.\<close>

lemma template_no_define:
  assumes k: "name (compiler s) = ''gcc'' \<or> name (compiler s) = ''intel''"
    and d: "startswith f ''-D''"
  shows "f \<notin> set (c_template s)" and "f \<notin> set (fc_template s)"
proof -
  have sub: "set (c_template s) \<union> set (fc_template s) \<subseteq>
         {''-O2'', ''-mtune=native'', ''-funroll-loops'', ''-ffast-math'', ''-ftree-vectorize'',
          ''-ip'', ''-pc64'', ''-unroll'', ''-fp-model precise'', ''-fp-model source'',
          ''-heap-arrays 64'', ''-diag-disable 8290,8291,10010,10212,11060'', ''-free'', ''-fpp'',
          ''-ffree-form'', ''-ffree-line-length-none''}" (is "_ \<subseteq> ?T")
    using k
    by (elim disjE) (simp_all add: c_template_def fc_template_def optflags_def has_compiler_def)
  have "f \<notin> ?T"
  proof
    assume "f \<in> ?T"
    then have "f = ''-O2'' \<or> f = ''-mtune=native'' \<or> f = ''-funroll-loops'' \<or> f = ''-ffast-math''
      \<or> f = ''-ftree-vectorize'' \<or> f = ''-ip'' \<or> f = ''-pc64'' \<or> f = ''-unroll''
      \<or> f = ''-fp-model precise'' \<or> f = ''-fp-model source'' \<or> f = ''-heap-arrays 64''
      \<or> f = ''-diag-disable 8290,8291,10010,10212,11060'' \<or> f = ''-free'' \<or> f = ''-fpp''
      \<or> f = ''-ffree-form'' \<or> f = ''-ffree-line-length-none''" by simp
    then show False using d by (elim disjE) (simp_all add: startswith_def)
  qed
  then have n: "f \<notin> set (c_template s) \<union> set (fc_template s)"
    using sub by (rule contra_subsetD[rotated])
  show "f \<notin> set (c_template s)"
  proof
    assume "f \<in> set (c_template s)"
    then have "f \<in> set (c_template s) \<union> set (fc_template s)" by (rule UnI1)
    with n show False by (rule notE)
  qed
  show "f \<notin> set (fc_template s)"
  proof
    assume "f \<in> set (fc_template s)"
    then have "f \<in> set (c_template s) \<union> set (fc_template s)" by (rule UnI2)
    with n show False by (rule notE)
  qed
qed

lemma mpi_fcflags_no_define: "\<forall>f \<in> set (mpi_fcflags s). \<not> startswith f ''-D''"
  by (simp add: mpi_fcflags_def elpa_include_def startswith_def)

lemma mpi_dflags_elem:
  assumes "d \<in> set (mpi_dflags s)"
  shows "d = ''-D__MPI_VERSION=3'' \<or> d = ''-D__MPI_VERSION=2'' \<or> d = ''-D__parallel''
       \<or> d = ''-D__LIBPEXSI'' \<or> d = ''-D__SCALAPACK'' \<or> d = ''-D__WANNIER90''
       \<or> d = ''-D__ELPA'' \<or> d = ''-D__ELPA2'' \<or> d = ''-D__ELPA3''
       \<or> d = ''-D__ELPA='' @ str_nat (elpa_version0 s) @ format_02d (elpa_version1 s)"
proof -
  have "set (mpi_dflags s) \<subseteq> {''-D__MPI_VERSION=3'', ''-D__MPI_VERSION=2'', ''-D__parallel'',
       ''-D__LIBPEXSI'', ''-D__SCALAPACK'', elpa_dflag s, ''-D__WANNIER90''}"
    unfolding mpi_dflags_def by (simp only: set_append set_simps if_distrib[of set] Un_subset_iff)
      simp
  from subsetD[OF this assms]
  have "d = ''-D__MPI_VERSION=3'' \<or> d = ''-D__MPI_VERSION=2'' \<or> d = ''-D__parallel''
       \<or> d = ''-D__LIBPEXSI'' \<or> d = ''-D__SCALAPACK'' \<or> d = elpa_dflag s \<or> d = ''-D__WANNIER90''"
    by simp
  moreover have "elpa_dflag s = ''-D__ELPA'' \<or> elpa_dflag s = ''-D__ELPA2''
      \<or> elpa_dflag s = ''-D__ELPA3''
      \<or> elpa_dflag s = ''-D__ELPA='' @ str_nat (elpa_version0 s) @ format_02d (elpa_version1 s)"
    by (simp add: elpa_dflag_def)
  ultimately show ?thesis by (elim disjE) simp_all
qed

lemma mpi_dflags_fresh:
  assumes "d \<in> set (mpi_dflags s)"
  shows "d \<notin> set (base_dflags s)" and "d \<noteq> ''-D__FFTSG''" and "d \<notin> set intel_dflags"
    and "d \<notin> {''-D__HAS_smm_dnn'', ''-D__HAS_smm_vec'', ''-D__LIBXSMM'', ''-D__PLUMED2''}"
    and "startswith d ''-D''"
proof -
  note c = mpi_dflags_elem[OF assms]
  show "d \<notin> set (base_dflags s)"
    using c by (elim disjE) (simp_all add: base_dflags_def)
  show "d \<noteq> ''-D__FFTSG''" using c by (elim disjE) simp_all
  show "d \<notin> set intel_dflags" using c by (elim disjE) (simp_all add: intel_dflags_def)
  show "d \<notin> {''-D__HAS_smm_dnn'', ''-D__HAS_smm_vec'', ''-D__LIBXSMM'', ''-D__PLUMED2''}"
    using c by (elim disjE) simp_all
  show "startswith d ''-D''" using c by (elim disjE) (simp_all add: startswith_def)
qed

text \<open>A define that is not among the defines is absent from the flag set.\<close>

lemma define_absent:
  assumes w: "write_makefile s env isfile = Inr b"
    and d: "startswith d ''-D''" and n: "d \<notin> set (all_dflags s)"
  shows "absent d s b"
proof -
  obtain b0 where "start_flags s = Inr b0" using w by (rule write_makefile_Inr)
  then have k: "name (compiler s) = ''gcc'' \<or> name (compiler s) = ''intel''"
    by (rule start_flags_Inr)
  note t = template_no_define[OF k d]
  have m: "d \<notin> set (mpi_fcflags s)"
  proof
    assume "d \<in> set (mpi_fcflags s)"
    with mpi_fcflags_no_define[of s] have "\<not> startswith d ''-D''" by (rule bspec)
    with d show False by simp
  qed
  show ?thesis
    unfolding absent_def compile_flags_def header_flags_def write_makefile_channels[OF w]
      all_fcflags_def
    using t m n by simp
qed

section \<open>Disabled variants\<close>

text \<open>
  Claim C3. Whenever \<open>write_makefile\<close> produces a flag set: with mpi disabled every define
  of the MPI block, \<open>-D__parallel\<close> among them, is absent, the link flags are the search
  flags of fftw, lapack, blas and libxc (followed by those of libxsmm when smm=libxsmm),
  and the link libraries are those of libint, of the small-matrix library, of plumed when
  enabled, and of libxc, fftw, lapack and blas: no library of scalapack, elpa, pexsi,
  superlu-dist, parmetis, metis, mpi or wannier90 is linked. With smm other than libsmm
  the two defines of libsmm are absent, with smm other than libxsmm \<open>-D__LIBXSMM\<close> is
  absent, and with plumed disabled \<open>-D__PLUMED2\<close> is absent. The variant static has no
  define.
\<close>

theorem disabled_variant_emits_nothing:
  assumes w: "write_makefile s env isfile = Inr b"
  shows "(\<not> mpi s \<longrightarrow>
            (\<forall>d \<in> set (mpi_dflags s). absent d s b) \<and> ''-D__parallel'' \<in> set (mpi_dflags s)
            \<and> ldflags b = base_search_flags s
                  # (if smm s = Libxsmm then [search_flags s (dep_libs s ''libxsmm'')] else [])
            \<and> libs b = dep_libs s (with_static s ''libint'') @ smm_libs s env
                  @ (if plumed s then dep_libs s ''plumed'' else [])
                  @ libxc_libs s @ fftw_libs s @ lapack_libs s @ blas_libs s)
       \<and> (smm s \<noteq> Libsmm \<longrightarrow> absent ''-D__HAS_smm_dnn'' s b \<and> absent ''-D__HAS_smm_vec'' s b)
       \<and> (smm s \<noteq> Libxsmm \<longrightarrow> absent ''-D__LIBXSMM'' s b)
       \<and> (\<not> plumed s \<longrightarrow> absent ''-D__PLUMED2'' s b)"
proof (intro conjI impI ballI)
  note c = write_makefile_channels[OF w]
  {
    fix d assume m: "\<not> mpi s" and d: "d \<in> set (mpi_dflags s)"
    note f = mpi_dflags_fresh[OF d]
    have "d \<notin> set (smm_dflags s)"
      using f(4) by (cases "smm s") (simp_all add: smm_dflags_def)
    then have "d \<notin> set (all_dflags s)"
      using m f(1,2,3,4) by (simp add: all_dflags_def)
    with w f(5) show "absent d s b" by (rule define_absent)
  }
  show "''-D__parallel'' \<in> set (mpi_dflags s)" by (simp add: mpi_dflags_def)
  {
    assume m: "\<not> mpi s"
    show "ldflags b = base_search_flags s
                  # (if smm s = Libxsmm then [search_flags s (dep_libs s ''libxsmm'')] else [])"
      using m by (simp add: c all_ldflags_def)
    show "libs b = dep_libs s (with_static s ''libint'') @ smm_libs s env
                  @ (if plumed s then dep_libs s ''plumed'' else [])
                  @ libxc_libs s @ fftw_libs s @ lapack_libs s @ blas_libs s"
      using m by (simp add: c all_libs_def)
  }
  have nm: "d \<notin> set (mpi_dflags s)"
    if "d \<in> {''-D__HAS_smm_dnn'', ''-D__HAS_smm_vec'', ''-D__LIBXSMM'', ''-D__PLUMED2''}" for d
  proof
    assume "d \<in> set (mpi_dflags s)"
    from mpi_dflags_fresh(4)[OF this] that show False by (rule notE)
  qed
  have other: "d \<notin> set (base_dflags s) \<and> d \<noteq> ''-D__FFTSG'' \<and> d \<notin> set intel_dflags
               \<and> startswith d ''-D''"
    if "d \<in> {''-D__HAS_smm_dnn'', ''-D__HAS_smm_vec'', ''-D__LIBXSMM'', ''-D__PLUMED2''}" for d
    using that by (simp add: base_dflags_def intel_dflags_def startswith_def) (elim disjE, simp_all)
  {
    assume n: "smm s \<noteq> Libsmm"
    have "''-D__HAS_smm_dnn'' \<notin> set (all_dflags s)"
      using n nm[of "''-D__HAS_smm_dnn''"] other[of "''-D__HAS_smm_dnn''"]
      by (simp add: all_dflags_def smm_dflags_def)
    with w show "absent ''-D__HAS_smm_dnn'' s b"
      using other[of "''-D__HAS_smm_dnn''"] by (intro define_absent) simp_all
    have "''-D__HAS_smm_vec'' \<notin> set (all_dflags s)"
      using n nm[of "''-D__HAS_smm_vec''"] other[of "''-D__HAS_smm_vec''"]
      by (simp add: all_dflags_def smm_dflags_def)
    with w show "absent ''-D__HAS_smm_vec'' s b"
      using other[of "''-D__HAS_smm_vec''"] by (intro define_absent) simp_all
  }
  {
    assume n: "smm s \<noteq> Libxsmm"
    have "''-D__LIBXSMM'' \<notin> set (all_dflags s)"
      using n nm[of "''-D__LIBXSMM''"] other[of "''-D__LIBXSMM''"]
      by (simp add: all_dflags_def smm_dflags_def)
    with w show "absent ''-D__LIBXSMM'' s b"
      using other[of "''-D__LIBXSMM''"] by (intro define_absent) simp_all
  }
  {
    assume n: "\<not> plumed s"
    have "''-D__PLUMED2'' \<notin> set (all_dflags s)"
      using n nm[of "''-D__PLUMED2''"] other[of "''-D__PLUMED2''"]
      by (simp add: all_dflags_def smm_dflags_def)
    with w show "absent ''-D__PLUMED2'' s b"
      using other[of "''-D__PLUMED2''"] by (intro define_absent) simp_all
  }
qed


theorem disabled_variant_emits_nothing_witness:
  "\<not> mpi cp2k_serial \<and> has_compiler cp2k_serial ''gcc''
   \<and> \<not> isl (write_makefile cp2k_serial no_env no_file)
   \<and> absent ''-D__parallel'' cp2k_serial (projr (write_makefile cp2k_serial no_env no_file))
   \<and> libs (projr (write_makefile cp2k_serial no_env no_file))
       = [''/opt/libint/lib/liblibint.a'', ''/opt/libxsmm/lib/liblibxsmm.so'',
          ''/opt/libxc/lib/liblibxc.a'', ''/opt/fftw/lib/libfftw.a'',
          ''/opt/lapack/lib/liblapack.a'', ''/opt/blas/lib/libblas.a'']
   \<and> smm cp2k_serial \<noteq> Libsmm
   \<and> absent ''-D__HAS_smm_dnn'' cp2k_serial (projr (write_makefile cp2k_serial no_env no_file))
   \<and> \<not> plumed cp2k_serial
   \<and> absent ''-D__PLUMED2'' cp2k_serial (projr (write_makefile cp2k_serial no_env no_file))
   \<and> smm cp2k_libsmm \<noteq> Libxsmm
   \<and> \<not> isl (write_makefile cp2k_libsmm libsmm_env libsmm_file)
   \<and> absent ''-D__LIBXSMM'' cp2k_libsmm
         (projr (write_makefile cp2k_libsmm libsmm_env libsmm_file))"
proof -
  have v: "\<not> mpi cp2k_serial" "smm cp2k_serial = Libxsmm" "\<not> plumed cp2k_serial"
    "name (compiler cp2k_serial) = ''gcc''" "static cp2k_serial"
    "dep_libs cp2k_serial = opt_libs"
    by (simp_all add: cp2k_serial_def cp2k_default_def gcc_def)
  have v': "smm cp2k_libsmm = Libsmm" "name (compiler cp2k_libsmm) = ''gcc''"
    by (simp_all add: cp2k_libsmm_def cp2k_default_def gcc_def)
  obtain b where w: "write_makefile cp2k_serial no_env no_file = Inr b"
    using write_makefile_known[of cp2k_serial no_env no_file] v by simp
  obtain b' where w': "write_makefile cp2k_libsmm libsmm_env libsmm_file = Inr b'"
    using write_makefile_known[of cp2k_libsmm libsmm_env libsmm_file] v'
    by (simp add: libsmm_env_def libsmm_file_def)
  note t = disabled_variant_emits_nothing[OF w]
  note t' = disabled_variant_emits_nothing[OF w']
  have p: "''-D__parallel'' \<in> set (mpi_dflags cp2k_serial)" using t v(1) by simp
  have a1: "absent ''-D__parallel'' cp2k_serial b"
    using t v(1) p by (simp del: insert_iff)
  have a2: "absent ''-D__HAS_smm_dnn'' cp2k_serial b" using t v(2) by simp
  have a3: "absent ''-D__PLUMED2'' cp2k_serial b" using t v(3) by simp
  have a4: "absent ''-D__LIBXSMM'' cp2k_libsmm b'" using t' v'(1) by simp
  have "libs b = dep_libs cp2k_serial (with_static cp2k_serial ''libint'')
                  @ smm_libs cp2k_serial no_env
                  @ (if plumed cp2k_serial then dep_libs cp2k_serial ''plumed'' else [])
                  @ libxc_libs cp2k_serial @ fftw_libs cp2k_serial @ lapack_libs cp2k_serial
                  @ blas_libs cp2k_serial"
    using t v(1) by simp
  then have l: "libs b = [''/opt/libint/lib/liblibint.a'', ''/opt/libxsmm/lib/liblibxsmm.so'',
          ''/opt/libxc/lib/liblibxc.a'', ''/opt/fftw/lib/libfftw.a'',
          ''/opt/lapack/lib/liblapack.a'', ''/opt/blas/lib/libblas.a'']"
    by (simp add: v with_static_def smm_libs_def libxc_libs_def fftw_libs_def lapack_libs_def
        blas_libs_def opt_libs_def query_name_def endswith_def)
  show ?thesis
    using v v' a1 a2 a3 a4 l by (simp add: w w' has_compiler_def)
qed

section \<open>Order of the link flags\<close>

lemma cp2k_default_fields:
  "mpi cp2k_default" "smm cp2k_default = Libxsmm" "in_superlu_dist_4_3 cp2k_default"
  "name (compiler cp2k_default) = ''gcc''" "static cp2k_default"
  "dep_libs cp2k_default = opt_libs" "search_flags cp2k_default = opt_search_flags"
  by (simp_all add: cp2k_default_def gcc_def)

lemma cp2k_default_search_flags:
  "base_search_flags cp2k_default
     = ''-L/opt/fftw/lib -L/opt/lapack/lib -L/opt/blas/lib -L/opt/libxc/lib''"
  "opt_search_flags (scalapack_libs cp2k_default) = ''-L/opt/scalapack/lib''"
  "opt_search_flags (opt_libs ''libxsmm'') = ''-L/opt/libxsmm/lib''"
  by (simp_all add: base_search_flags_def cp2k_default_fields ll_add_def fftw_libs_def
      lapack_libs_def blas_libs_def libxc_libs_def scalapack_libs_def with_static_def
      opt_libs_def query_name_def endswith_def opt_search_flags_def dirname_def)

lemma ldflags_line_written:
  assumes "write_makefile s env isfile = Inr b"
  shows "''LDFLAGS = '' @ join '' '' (ldflags b) @ ''\<newline>\<newline>'' \<in> set (mkf b)"
proof -
  have "''LDFLAGS = '' @ join '' '' (ldflags b) @ ''\<newline>\<newline>'' \<in> set (flag_lines s b)"
    unfolding flag_lines_def by (simp only: set_append set_simps Un_iff insert_iff) simp
  then show ?thesis
    unfolding write_makefile_channels(8)[OF assms] by (simp only: set_append Un_iff) simp
qed

text \<open>
  Claim C5, amended. Whenever \<open>write_makefile\<close> produces a flag set, every channel is the
  concatenation of what was appended to it, in the order of the appends, with one
  exception: when mpi is enabled and the Spec contains superlu-dist@4.3, the flag
  \<open>-Wl,--allow-multiple-definition\<close> is put in front of the link flags. So the LDFLAGS line
  holds that flag if it applies, then the combined search flags of fftw, lapack, blas and
  libxc, then those of scalapack when mpi is enabled, then those of libxsmm when
  smm=libxsmm; the defines follow the compile template in the C, C++ and Fortran channels.
\<close>

theorem link_flags_order:
  assumes "write_makefile s env isfile = Inr b"
  shows "ldflags b =
           (if mpi s \<and> in_superlu_dist_4_3 s then [''-Wl,--allow-multiple-definition''] else [])
           @ [base_search_flags s]
           @ (if mpi s then [search_flags s (scalapack_libs s)] else [])
           @ (if smm s = Libxsmm then [search_flags s (dep_libs s ''libxsmm'')] else [])
       \<and> ''LDFLAGS = '' @ join '' '' (ldflags b) @ ''\<newline>\<newline>'' \<in> set (mkf b)
       \<and> dflags b = all_dflags s \<and> cppflags b = dflags b
       \<and> cflags b = c_template s @ dflags b \<and> cxxflags b = c_template s @ dflags b
       \<and> fcflags b = all_fcflags s \<and> libs b = all_libs s env
       \<and> mkf b = (if plumed s then [''include '' @ plumed_inc s @ ''\<newline>\<newline>''] else [])
                 @ tool_lines s @ flag_lines s b"
proof -
  note c = write_makefile_channels[OF assms]
  have "ldflags b =
           (if mpi s \<and> in_superlu_dist_4_3 s then [''-Wl,--allow-multiple-definition''] else [])
           @ [base_search_flags s]
           @ (if mpi s then [search_flags s (scalapack_libs s)] else [])
           @ (if smm s = Libxsmm then [search_flags s (dep_libs s ''libxsmm'')] else [])"
    unfolding c(6) all_ldflags_def ..
  moreover note ldflags_line_written[OF assms] c(1)
  moreover have "cppflags b = dflags b" "cflags b = c_template s @ dflags b"
    "cxxflags b = c_template s @ dflags b"
    by (simp_all only: c)
  moreover note c(5) c(7) c(8)
  ultimately show ?thesis by (intro conjI)
qed

theorem link_flags_order_witness:
  "\<not> isl (write_makefile cp2k_default no_env no_file)
   \<and> ldflags (projr (write_makefile cp2k_default no_env no_file))
       = [''-Wl,--allow-multiple-definition'',
          ''-L/opt/fftw/lib -L/opt/lapack/lib -L/opt/blas/lib -L/opt/libxc/lib'',
          ''-L/opt/scalapack/lib'', ''-L/opt/libxsmm/lib'']
   \<and> ''LDFLAGS = -Wl,--allow-multiple-definition -L/opt/fftw/lib -L/opt/lapack/lib -L/opt/blas/lib -L/opt/libxc/lib -L/opt/scalapack/lib -L/opt/libxsmm/lib\<newline>\<newline>''
       \<in> set (mkf (projr (write_makefile cp2k_default no_env no_file)))"
proof -
  note v = cp2k_default_fields
  obtain b where w: "write_makefile cp2k_default no_env no_file = Inr b"
    using write_makefile_known[of cp2k_default no_env no_file] v by simp
  note t = link_flags_order[OF w]
  note s1 = cp2k_default_search_flags(1) and s2 = cp2k_default_search_flags(2)
    and s3 = cp2k_default_search_flags(3)
  have l: "ldflags b = [''-Wl,--allow-multiple-definition'',
          ''-L/opt/fftw/lib -L/opt/lapack/lib -L/opt/blas/lib -L/opt/libxc/lib'',
          ''-L/opt/scalapack/lib'', ''-L/opt/libxsmm/lib'']"
    using t by (simp add: v s1 s2 s3)
  have "''LDFLAGS = '' @ join '' '' (ldflags b) @ ''\<newline>\<newline>'' \<in> set (mkf b)"
    using t by (elim conjE)
  then have m: "''LDFLAGS = -Wl,--allow-multiple-definition -L/opt/fftw/lib -L/opt/lapack/lib -L/opt/blas/lib -L/opt/libxc/lib -L/opt/scalapack/lib -L/opt/libxsmm/lib\<newline>\<newline>''
       \<in> set (mkf b)"
    by (simp add: l)
  show ?thesis using l m by (simp add: w)
qed

text \<open>
  Claim C5 as stated fails for cp2k with mpi and superlu-dist@4.3: the LDFLAGS line
  starts with \<open>-Wl,--allow-multiple-definition\<close>, which was added after the combined
  search flags and after those of scalapack, and stands before both.
\<close>

theorem override_flag_precedes_search_flags:
  "mpi cp2k_default \<and> in_superlu_dist_4_3 cp2k_default
   \<and> \<not> isl (write_makefile cp2k_default no_env no_file)
   \<and> ldflags (projr (write_makefile cp2k_default no_env no_file))
       = [''-Wl,--allow-multiple-definition'',
          ''-L/opt/fftw/lib -L/opt/lapack/lib -L/opt/blas/lib -L/opt/libxc/lib'',
          ''-L/opt/scalapack/lib'', ''-L/opt/libxsmm/lib'']
   \<and> base_search_flags cp2k_default
       = ''-L/opt/fftw/lib -L/opt/lapack/lib -L/opt/blas/lib -L/opt/libxc/lib''
   \<and> hd (ldflags (projr (write_makefile cp2k_default no_env no_file)))
       \<noteq> base_search_flags cp2k_default"
proof -
  note v = cp2k_default_fields
  obtain b where w: "write_makefile cp2k_default no_env no_file = Inr b"
    using write_makefile_known[of cp2k_default no_env no_file] v by simp
  note s1 = cp2k_default_search_flags(1) and s2 = cp2k_default_search_flags(2)
    and s3 = cp2k_default_search_flags(3)
  have l: "ldflags b = [''-Wl,--allow-multiple-definition'',
          ''-L/opt/fftw/lib -L/opt/lapack/lib -L/opt/blas/lib -L/opt/libxc/lib'',
          ''-L/opt/scalapack/lib'', ''-L/opt/libxsmm/lib'']"
    by (simp add: write_makefile_channels(6)[OF w] all_ldflags_def v s1 s2 s3)
  show ?thesis using v(1,3) l s1 by (simp add: w)
qed

section \<open>The environment across the make step\<close>

lemma makefiles_stage_Inr:
  assumes "makefiles_stage run_make s cwd env = Inr r"
  obtains pwd_backup where "env ''PWD'' = Some pwd_backup"
    and "r = \<lparr>env_after = (env(''PWD'' \<mapsto> path_join2 cwd ''makefiles''))(''PWD'' \<mapsto> pwd_backup),
              ran = \<lparr>wdir = ''makefiles'', command = ''make'',
                     args = [''ARCH='' @ cp2k_architecture s, ''VERSION='' @ cp2k_version s]\<rparr>,
              env_during = env(''PWD'' \<mapsto> path_join2 cwd ''makefiles'')\<rparr>"
    and "run_make (ran r) (env_during r) = None"
  using assms
  by (simp add: makefiles_stage_def Let_def split: option.splits)

text \<open>
  Claim C9. Every run of the make step that completes leaves the environment as it found
  it, \<open>PWD\<close> included, although \<open>make\<close> itself ran with \<open>PWD\<close> set to the directory
  \<open>makefiles\<close> under the directory \<open>install\<close> started in; the same holds for every run of
  \<open>install\<close> that completes.
\<close>

theorem pwd_restored:
  "(makefiles_stage run_make s cwd env = Inr r \<longrightarrow>
      env_after r ''PWD'' = env ''PWD'' \<and> env_after r = env
      \<and> env_during r ''PWD'' = Some (path_join2 cwd ''makefiles'')
      \<and> command (ran r) = ''make'' \<and> wdir (ran r) = ''makefiles''
      \<and> run_make (ran r) (env_during r) = None)
   \<and> (install run_make s cwd env isfile = Inr i \<longrightarrow>
      final_env i ''PWD'' = env ''PWD'' \<and> final_env i = env)"
proof (intro conjI impI)
  have stage: "env_after r = env \<and> env_during r ''PWD'' = Some (path_join2 cwd ''makefiles'')
      \<and> command (ran r) = ''make'' \<and> wdir (ran r) = ''makefiles''
      \<and> run_make (ran r) (env_during r) = None"
    if "makefiles_stage run_make s cwd env = Inr r" for r
  proof -
    from that obtain pwd_backup where p: "env ''PWD'' = Some pwd_backup"
      and r: "r = \<lparr>env_after = (env(''PWD'' \<mapsto> path_join2 cwd ''makefiles''))(''PWD'' \<mapsto> pwd_backup),
              ran = \<lparr>wdir = ''makefiles'', command = ''make'',
                     args = [''ARCH='' @ cp2k_architecture s, ''VERSION='' @ cp2k_version s]\<rparr>,
              env_during = env(''PWD'' \<mapsto> path_join2 cwd ''makefiles'')\<rparr>"
      and m: "run_make (ran r) (env_during r) = None"
      by (rule makefiles_stage_Inr)
    have "env_after r = env" using p by (simp add: r map_upd_triv)
    moreover have "env_during r ''PWD'' = Some (path_join2 cwd ''makefiles'')"
      "command (ran r) = ''make''" "wdir (ran r) = ''makefiles''"
      by (simp_all add: r)
    ultimately show ?thesis using m by simp
  qed
  {
    assume a: "makefiles_stage run_make s cwd env = Inr r"
    from stage[OF a] show "env_after r = env"
      "env_during r ''PWD'' = Some (path_join2 cwd ''makefiles'')"
      "command (ran r) = ''make''" "wdir (ran r) = ''makefiles''"
      "run_make (ran r) (env_during r) = None" by simp_all
    from stage[OF a] show "env_after r ''PWD'' = env ''PWD''" by simp
  }
  {
    assume a: "install run_make s cwd env isfile = Inr i"
    then obtain r' where r': "makefiles_stage run_make s cwd env = Inr r'"
      and i: "final_env i = env_after r'"
      by (auto simp add: install_def split: sum.splits)
    from stage[OF r'] i show "final_env i = env" by simp
    then show "final_env i ''PWD'' = env ''PWD''" by simp
  }
qed

theorem pwd_restored_witness:
  "\<not> isl (makefiles_stage make_ok cp2k_default ''/tmp/stage'' pwd_env)
   \<and> pwd_env ''PWD'' = Some ''/home/user''
   \<and> env_after (projr (makefiles_stage make_ok cp2k_default ''/tmp/stage'' pwd_env)) ''PWD''
       = Some ''/home/user''
   \<and> env_during (projr (makefiles_stage make_ok cp2k_default ''/tmp/stage'' pwd_env)) ''PWD''
       = Some ''/tmp/stage/makefiles''
   \<and> \<not> isl (install make_ok cp2k_default ''/tmp/stage'' pwd_env no_file)
   \<and> final_env (projr (install make_ok cp2k_default ''/tmp/stage'' pwd_env no_file)) ''PWD''
       = Some ''/home/user''"
proof -
  have p: "pwd_env ''PWD'' = Some ''/home/user''" by (simp add: pwd_env_def)
  obtain r where r: "makefiles_stage make_ok cp2k_default ''/tmp/stage'' pwd_env = Inr r"
    by (simp add: makefiles_stage_def Let_def pwd_env_def make_ok_def)
  have "\<exists>b. write_makefile cp2k_default pwd_env no_file = Inr b"
    using write_makefile_known[of cp2k_default pwd_env no_file] cp2k_default_fields by simp
  then obtain i where i: "install make_ok cp2k_default ''/tmp/stage'' pwd_env no_file = Inr i"
    by (auto simp add: install_def r)
  note t = pwd_restored[of make_ok cp2k_default "''/tmp/stage''" pwd_env r no_file i]
  have j: "path_join2 ''/tmp/stage'' ''makefiles'' = ''/tmp/stage/makefiles''"
    by (simp add: path_join2_def startswith_def endswith_def)
  from t r have "env_after r ''PWD'' = Some ''/home/user''" by (simp add: p)
  moreover from t r have "env_during r ''PWD'' = Some ''/tmp/stage/makefiles''" by (simp add: j)
  moreover from t i have "final_env i ''PWD'' = Some ''/home/user''" by (simp add: p)
  ultimately show ?thesis using p by (simp add: r i)
qed

section \<open>Static and shared libraries\<close>

text \<open>
  Claim C10. \<open>with_static\<close> returns the query unchanged when the variant static is
  disabled; otherwise it appends \<open>,static\<close> to a query that contains a colon and
  \<open>:static\<close> to one that does not. The property \<open>libs\<close> of fftw looks for \<open>libfftw3\<close> under
  the prefix, recursively, static exactly when \<open>static\<close> is one of the extra parameters of
  the last query, and shared otherwise.
\<close>

theorem static_query_round_trip:
  "(\<not> static s \<longrightarrow> with_static s query = query)
   \<and> (static s \<and> CHR '':'' \<in> set query \<longrightarrow> with_static s query = query @ '',static'')
   \<and> (static s \<and> CHR '':'' \<notin> set query \<longrightarrow> with_static s query = query @ '':static'')
   \<and> (''static'' \<in> set extra_parameters \<longrightarrow>
        libs_fftw find_libraries prefix extra_parameters
        = find_libraries [''libfftw3''] prefix False True)
   \<and> (''static'' \<notin> set extra_parameters \<longrightarrow>
        libs_fftw find_libraries prefix extra_parameters
        = find_libraries [''libfftw3''] prefix True True)"
  by (simp add: with_static_def libs_fftw_def)

theorem static_query_round_trip_witness:
  "static cp2k_default \<and> with_static cp2k_default ''fftw'' = ''fftw:static''
   \<and> with_static cp2k_default ''libxc:fortran'' = ''libxc:fortran,static''
   \<and> \<not> static cp2k_shared \<and> with_static cp2k_shared ''fftw'' = ''fftw''
   \<and> libs_fftw find_in_lib ''/opt/fftw'' [''static''] = [''/opt/fftw/lib/libfftw3.a'']
   \<and> libs_fftw find_in_lib ''/opt/fftw'' [] = [''/opt/fftw/lib/libfftw3.so'']"
proof -
  have s1: "static cp2k_default" by (rule cp2k_default_fields)
  have s2: "\<not> static cp2k_shared" by (simp add: cp2k_shared_def)
  have c1: "CHR '':'' \<notin> set ''fftw''" and c2: "CHR '':'' \<in> set ''libxc:fortran''" by simp_all
  have e1: "''static'' \<in> set [''static'']" and e2: "''static'' \<notin> set []" by simp_all
  from static_query_round_trip[of cp2k_default "''fftw''" "[''static'']" find_in_lib "''/opt/fftw''"]
    s1 c1 e1
  have r1: "with_static cp2k_default ''fftw'' = ''fftw:static''"
    and r4: "libs_fftw find_in_lib ''/opt/fftw'' [''static'']
             = find_in_lib [''libfftw3''] ''/opt/fftw'' False True" by simp_all
  from static_query_round_trip[of cp2k_default "''libxc:fortran''" "[]" find_in_lib "''/opt/fftw''"]
    s1 c2 e2
  have r2: "with_static cp2k_default ''libxc:fortran'' = ''libxc:fortran,static''"
    and r5: "libs_fftw find_in_lib ''/opt/fftw'' []
             = find_in_lib [''libfftw3''] ''/opt/fftw'' True True" by simp_all
  from static_query_round_trip[of cp2k_shared "''fftw''" "[]" find_in_lib "''/opt/fftw''"] s2
  have r3: "with_static cp2k_shared ''fftw'' = ''fftw''" by simp
  show ?thesis using s1 s2 r1 r2 r3 by (simp add: r4 r5 find_in_lib_def)
qed

section \<open>The environment and the plan of vasp\<close>

text \<open>Carrying out two lists of modifications one after the other.\<close>

lemma apply_mods_append: "apply_mods (a @ b) e = apply_mods b (apply_mods a e)"
proof (induction a arbitrary: e)
  case Nil
  show ?case by simp
next
  case (Cons m ms)
  show ?case by (cases m) (simp only: append_Cons apply_mods.simps Cons.IH)
qed

text \<open>
  Claim C8. Whatever modifications the build environment already holds,
  \<open>setup_environment\<close> of vasp adds two assignments to it, after them, and leaves the run
  environment as it is: once the modifications are carried out, \<open>CRAYPE_LINK_TYPE\<close> is
  \<open>static\<close>, \<open>INSTALL_DIR\<close> is the install prefix, and every other variable has the value the
  earlier modifications gave it. \<open>install\<close> issues one external command, \<open>make all\<close>; it
  runs no configure and writes no file.
\<close>

theorem vasp_environment_and_install:
  "setup_environment prefix spack_env run_env
     = (spack_env @ [SetEnv ''CRAYPE_LINK_TYPE'' ''static'', SetEnv ''INSTALL_DIR'' prefix],
        run_env)
   \<and> apply_mods (fst (setup_environment prefix spack_env run_env)) e
     = (apply_mods spack_env e)(''CRAYPE_LINK_TYPE'' \<mapsto> ''static'', ''INSTALL_DIR'' \<mapsto> prefix)
   \<and> dom (apply_mods (fst (setup_environment prefix spack_env run_env)) e)
     = dom (apply_mods spack_env e) \<union> {''CRAYPE_LINK_TYPE'', ''INSTALL_DIR''}
   \<and> apply_mods (snd (setup_environment prefix spack_env run_env)) e = apply_mods run_env e
   \<and> setup_environment prefix [] run_env
     = ([SetEnv ''CRAYPE_LINK_TYPE'' ''static'', SetEnv ''INSTALL_DIR'' prefix], run_env)
   \<and> apply_mods (fst (setup_environment prefix [] run_env)) e
     = e(''CRAYPE_LINK_TYPE'' \<mapsto> ''static'', ''INSTALL_DIR'' \<mapsto> prefix)
   \<and> dom (apply_mods (fst (setup_environment prefix [] run_env)) e)
     = dom e \<union> {''CRAYPE_LINK_TYPE'', ''INSTALL_DIR''}
   \<and> vasp_install s prefix = [Run \<lparr>wdir = ''.'', command = ''make'', args = [''all'']\<rparr>]"
  by (simp add: setup_environment_def vasp_install_def apply_mods_append insert_commute)

section \<open>The precisions of fftw\<close>

lemma make_each_Inr:
  "make_each ds a dirs = Inr q \<Longrightarrow>
   map wdir q = ds \<and> (\<forall>i \<in> set q. command i = ''make'' \<and> args i = a) \<and> set ds \<subseteq> dirs"
proof (induction ds arbitrary: q)
  case Nil
  then show ?case by simp
next
  case (Cons d ds)
  from Cons.prems obtain q' where d: "d \<in> dirs" and q': "make_each ds a dirs = Inr q'"
    and q: "q = \<lparr>wdir = d, command = ''make'', args = a\<rparr> # q'"
    by (auto split: if_splits sum.splits)
  from Cons.IH[OF q'] d show ?case by (simp add: q)
qed

lemma make_each_succeeds:
  "set ds \<subseteq> dirs \<Longrightarrow> \<exists>q. make_each ds a dirs = Inr q"
  by (induction ds) auto

lemma configure_Inr:
  assumes "configure s prefix dirs = Inr (dirs', p)"
  obtains options where "configure_options s prefix = Inr options"
    and "p = (if v_double s then [configure_in ''double'' (options @ simd_options s)] else [])
            @ (if v_float s
               then [configure_in ''float'' (''--enable-float'' # options @ simd_options s)]
               else [])
            @ (if at_least_3 (fftw_version s) \<and> v_long_double s
               then [configure_in ''long-double'' (''--enable-long-double'' # options)] else [])
            @ (if at_least_3 (fftw_version s) \<and> v_quad s
               then [configure_in ''quad'' (''--enable-quad-precision'' # options)] else [])"
    and "dirs' = dirs \<union> set (map wdir p)"
  using assms by (auto simp add: configure_def Let_def split: sum.splits)

lemma configure_dirs:
  assumes "configure s prefix dirs = Inr (dirs', p)"
  shows "map wdir p =
           (if v_double s then [''double''] else [])
           @ (if v_float s then [''float''] else [])
           @ (if at_least_3 (fftw_version s) \<and> v_long_double s then [''long-double''] else [])
           @ (if at_least_3 (fftw_version s) \<and> v_quad s then [''quad''] else [])"
proof -
  from assms obtain options where
    p: "p = (if v_double s then [configure_in ''double'' (options @ simd_options s)] else [])
            @ (if v_float s
               then [configure_in ''float'' (''--enable-float'' # options @ simd_options s)]
               else [])
            @ (if at_least_3 (fftw_version s) \<and> v_long_double s
               then [configure_in ''long-double'' (''--enable-long-double'' # options)] else [])
            @ (if at_least_3 (fftw_version s) \<and> v_quad s
               then [configure_in ''quad'' (''--enable-quad-precision'' # options)] else [])"
    by (rule configure_Inr)
  show ?thesis unfolding p by (simp add: configure_in_def)
qed

lemma configure_commands:
  assumes "configure s prefix dirs = Inr (dirs', p)" and "i \<in> set p"
  shows "command i = ''../configure''"
    and "wdir i = ''float'' \<Longrightarrow> hd (args i) = ''--enable-float''"
    and "wdir i = ''long-double'' \<Longrightarrow> hd (args i) = ''--enable-long-double''"
    and "wdir i = ''quad'' \<Longrightarrow> hd (args i) = ''--enable-quad-precision''"
proof -
  from assms(1) obtain options where
    p: "p = (if v_double s then [configure_in ''double'' (options @ simd_options s)] else [])
            @ (if v_float s
               then [configure_in ''float'' (''--enable-float'' # options @ simd_options s)]
               else [])
            @ (if at_least_3 (fftw_version s) \<and> v_long_double s
               then [configure_in ''long-double'' (''--enable-long-double'' # options)] else [])
            @ (if at_least_3 (fftw_version s) \<and> v_quad s
               then [configure_in ''quad'' (''--enable-quad-precision'' # options)] else [])"
    by (rule configure_Inr)
  from assms(2) have c: "i = configure_in ''double'' (options @ simd_options s)
      \<or> i = configure_in ''float'' (''--enable-float'' # options @ simd_options s)
      \<or> i = configure_in ''long-double'' (''--enable-long-double'' # options)
      \<or> i = configure_in ''quad'' (''--enable-quad-precision'' # options)"
    unfolding p by (simp split: if_splits) (elim disjE conjE; simp)
  show "command i = ''../configure''" using c by (elim disjE) (simp_all add: configure_in_def)
  show "wdir i = ''float'' \<Longrightarrow> hd (args i) = ''--enable-float''"
    using c by (elim disjE) (simp_all add: configure_in_def)
  show "wdir i = ''long-double'' \<Longrightarrow> hd (args i) = ''--enable-long-double''"
    using c by (elim disjE) (simp_all add: configure_in_def)
  show "wdir i = ''quad'' \<Longrightarrow> hd (args i) = ''--enable-quad-precision''"
    using c by (elim disjE) (simp_all add: configure_in_def)
qed

lemma configure_creates:
  assumes c: "configure s prefix dirs = Inr (dirs', p)"
  shows "dirs' = dirs \<union> set (map wdir p)"
proof -
  from c obtain options where e: "dirs' = dirs \<union> set (map wdir p)"
    by (rule configure_Inr)
  then show ?thesis .
qed

lemma build_dirs:
  assumes "build s d = Inr q"
  shows "map wdir q = (if v_double s then [''double''] else [])
                         @ (if v_float s then [''float''] else [])
                         @ (if v_long_double s then [''long-double''] else [])
                         @ (if v_quad s then [''quad''] else [])"
    and "\<forall>i \<in> set q. command i = ''make'' \<and> args i = []"
proof -
  from assms have "make_each (precisions s) [] d = Inr q" by (simp only: build_def)
  from make_each_Inr[OF this] have m: "map wdir q = precisions s"
    and a: "\<forall>i \<in> set q. command i = ''make'' \<and> args i = []" by simp_all
  show "map wdir q = (if v_double s then [''double''] else [])
                         @ (if v_float s then [''float''] else [])
                         @ (if v_long_double s then [''long-double''] else [])
                         @ (if v_quad s then [''quad''] else [])"
    unfolding m precisions_def ..
  show "\<forall>i \<in> set q. command i = ''make'' \<and> args i = []" by (rule a)
qed

lemma build_after_configure:
  assumes c: "configure s prefix dirs = Inr (dirs', p)" and v: "at_least_3 (fftw_version s)"
  shows "\<exists>q. build s dirs' = Inr q \<and> map wdir q = map wdir p
                 \<and> (\<forall>i \<in> set q. command i = ''make'' \<and> args i = [])"
proof -
  from c obtain options where e: "dirs' = dirs \<union> set (map wdir p)"
    by (rule configure_Inr)
  have pr: "precisions s = map wdir p"
    unfolding configure_dirs[OF c] precisions_def using v by simp
  have "set (precisions s) \<subseteq> dirs'" unfolding e pr by (rule Un_upper2)
  from make_each_succeeds[OF this, of "[]"]
  obtain q where q: "make_each (precisions s) [] dirs' = Inr q" ..
  from make_each_Inr[OF q] have "map wdir q = precisions s"
    and a: "\<forall>i \<in> set q. command i = ''make'' \<and> args i = []" by simp_all
  then have "map wdir q = map wdir p" by (simp only: pr)
  moreover have "build s dirs' = Inr q" by (simp only: build_def q)
  ultimately have "build s dirs' = Inr q \<and> map wdir q = map wdir p
                 \<and> (\<forall>i \<in> set q. command i = ''make'' \<and> args i = [])"
    using a by (intro conjI)
  then show ?thesis by (rule exI[where x=q])
qed

text \<open>With openmp under Apple's clang \<open>configure\<close> raises before it runs anything.\<close>

lemma apple_clang_openmp_raises:
  "configure fftw_apple_openmp ''/opt/fftw'' {}
   = Inl (InstallError ''Apple's clang does not support OpenMP'')"
  by (simp add: configure_def configure_options_def has_compiler_def endswith_def
      fftw_apple_openmp_def fftw_3_def clang_def)

text \<open>
  Claim C4, amended. Whenever \<open>configure\<close> of fftw does not raise, it runs \<open>../configure\<close>
  once for each configured precision, each in its own subdirectory, in the order double,
  float, long-double, quad: in \<open>double\<close> and \<open>float\<close> exactly when the variant is enabled, in
  \<open>long-double\<close> and \<open>quad\<close> exactly when the variant is enabled and the version is 3 or
  later, with \<open>--enable-float\<close>, \<open>--enable-long-double\<close> and \<open>--enable-quad-precision\<close> as
  first argument for the precisions other than double; it creates these subdirectories.
  For a version 3 or later \<open>build\<close> then runs \<open>make\<close> in exactly the subdirectories
  \<open>configure\<close> ran in, in the same order. A disabled precision is skipped by \<open>configure\<close>
  and by every run of \<open>build\<close> that completes.
\<close>

theorem precision_fan_out:
  assumes c: "configure s prefix dirs = Inr (dirs', p)"
  shows "map wdir p =
           (if v_double s then [''double''] else [])
           @ (if v_float s then [''float''] else [])
           @ (if at_least_3 (fftw_version s) \<and> v_long_double s then [''long-double''] else [])
           @ (if at_least_3 (fftw_version s) \<and> v_quad s then [''quad''] else [])
       \<and> (\<forall>i \<in> set p. command i = ''../configure''
             \<and> (wdir i = ''float'' \<longrightarrow> hd (args i) = ''--enable-float'')
             \<and> (wdir i = ''long-double'' \<longrightarrow> hd (args i) = ''--enable-long-double'')
             \<and> (wdir i = ''quad'' \<longrightarrow> hd (args i) = ''--enable-quad-precision''))
       \<and> dirs' = dirs \<union> set (map wdir p)
       \<and> (at_least_3 (fftw_version s) \<longrightarrow>
            (\<exists>q. build s dirs' = Inr q \<and> map wdir q = map wdir p
                 \<and> (\<forall>i \<in> set q. command i = ''make'' \<and> args i = [])))
       \<and> (\<forall>d q. build s d = Inr q \<longrightarrow>
            map wdir q = (if v_double s then [''double''] else [])
                         @ (if v_float s then [''float''] else [])
                         @ (if v_long_double s then [''long-double''] else [])
                         @ (if v_quad s then [''quad''] else []))"
proof (intro conjI impI allI ballI)
  show "map wdir p =
           (if v_double s then [''double''] else [])
           @ (if v_float s then [''float''] else [])
           @ (if at_least_3 (fftw_version s) \<and> v_long_double s then [''long-double''] else [])
           @ (if at_least_3 (fftw_version s) \<and> v_quad s then [''quad''] else [])"
    by (rule configure_dirs[OF c])
  show "dirs' = dirs \<union> set (map wdir p)" by (rule configure_creates[OF c])
next
  fix i assume i: "i \<in> set p"
  show "command i = ''../configure''" by (rule configure_commands(1)[OF c i])
  { assume "wdir i = ''float''"
    then show "hd (args i) = ''--enable-float''" by (rule configure_commands(2)[OF c i]) }
  { assume "wdir i = ''long-double''"
    then show "hd (args i) = ''--enable-long-double''" by (rule configure_commands(3)[OF c i]) }
  { assume "wdir i = ''quad''"
    then show "hd (args i) = ''--enable-quad-precision''"
      by (rule configure_commands(4)[OF c i]) }
next
  assume "at_least_3 (fftw_version s)"
  with c show "\<exists>q. build s dirs' = Inr q \<and> map wdir q = map wdir p
                 \<and> (\<forall>i \<in> set q. command i = ''make'' \<and> args i = [])"
    by (rule build_after_configure)
next
  fix d q assume "build s d = Inr q"
  then show "map wdir q = (if v_double s then [''double''] else [])
                         @ (if v_float s then [''float''] else [])
                         @ (if v_long_double s then [''long-double''] else [])
                         @ (if v_quad s then [''quad''] else [])"
    by (rule build_dirs(1))
qed

lemma fftw_3_configure:
  "configure fftw_3 ''/opt/fftw'' {} =
     Inr ({''double'', ''float'', ''long-double''},
          [\<lparr>wdir = ''double'', command = ''../configure'',
            args = [''--prefix=/opt/fftw'', ''--enable-shared'', ''--enable-threads'',
                    ''--enable-mpi'', ''--enable-sse2'']\<rparr>,
           \<lparr>wdir = ''float'', command = ''../configure'',
            args = [''--enable-float'', ''--prefix=/opt/fftw'', ''--enable-shared'',
                    ''--enable-threads'', ''--enable-mpi'', ''--enable-sse2'']\<rparr>,
           \<lparr>wdir = ''long-double'', command = ''../configure'',
            args = [''--enable-long-double'', ''--prefix=/opt/fftw'', ''--enable-shared'',
                    ''--enable-threads'', ''--enable-mpi'']\<rparr>])"
  by (simp add: configure_def configure_options_def base_options_def simd_options_def
      configure_in_def fftw_3_def gcc_def truthy_def startswith_def insert_commute)

lemma fftw_2_configure:
  "configure fftw_2 ''/opt/fftw'' {} =
     Inr ({''double'', ''float''},
          [\<lparr>wdir = ''double'', command = ''../configure'',
            args = [''--prefix=/opt/fftw'', ''--enable-shared'', ''--enable-threads'',
                    ''--enable-type-prefix'', ''--enable-mpi'']\<rparr>,
           \<lparr>wdir = ''float'', command = ''../configure'',
            args = [''--enable-float'', ''--prefix=/opt/fftw'', ''--enable-shared'',
                    ''--enable-threads'', ''--enable-type-prefix'', ''--enable-mpi'']\<rparr>])"
  by (simp add: configure_def configure_options_def base_options_def simd_options_def
        configure_in_def fftw_2_def fftw_3_def gcc_def truthy_def insert_commute)

theorem precision_fan_out_witness:
  "configure fftw_3 ''/opt/fftw'' {} =
     Inr ({''double'', ''float'', ''long-double''},
          [\<lparr>wdir = ''double'', command = ''../configure'',
            args = [''--prefix=/opt/fftw'', ''--enable-shared'', ''--enable-threads'',
                    ''--enable-mpi'', ''--enable-sse2'']\<rparr>,
           \<lparr>wdir = ''float'', command = ''../configure'',
            args = [''--enable-float'', ''--prefix=/opt/fftw'', ''--enable-shared'',
                    ''--enable-threads'', ''--enable-mpi'', ''--enable-sse2'']\<rparr>,
           \<lparr>wdir = ''long-double'', command = ''../configure'',
            args = [''--enable-long-double'', ''--prefix=/opt/fftw'', ''--enable-shared'',
                    ''--enable-threads'', ''--enable-mpi'']\<rparr>])
   \<and> at_least_3 (fftw_version fftw_3)
   \<and> \<not> isl (build fftw_3 {''double'', ''float'', ''long-double''})
   \<and> map wdir (projr (build fftw_3 {''double'', ''float'', ''long-double''}))
       = [''double'', ''float'', ''long-double'']
   \<and> \<not> v_quad fftw_3"
proof -
  note t = precision_fan_out[OF fftw_3_configure]
  have v: "at_least_3 (fftw_version fftw_3)" "\<not> v_quad fftw_3"
    by (simp_all add: fftw_3_def)
  have b: "build fftw_3 {''double'', ''float'', ''long-double''}
           = Inr [\<lparr>wdir = ''double'', command = ''make'', args = []\<rparr>,
                  \<lparr>wdir = ''float'', command = ''make'', args = []\<rparr>,
                  \<lparr>wdir = ''long-double'', command = ''make'', args = []\<rparr>]"
    by (simp add: build_def precisions_def fftw_3_def)
  from t have "at_least_3 (fftw_version fftw_3) \<longrightarrow>
            (\<exists>q. build fftw_3 {''double'', ''float'', ''long-double''} = Inr q
                 \<and> map wdir q = map wdir
          [\<lparr>wdir = ''double'', command = ''../configure'',
            args = [''--prefix=/opt/fftw'', ''--enable-shared'', ''--enable-threads'',
                    ''--enable-mpi'', ''--enable-sse2'']\<rparr>,
           \<lparr>wdir = ''float'', command = ''../configure'',
            args = [''--enable-float'', ''--prefix=/opt/fftw'', ''--enable-shared'',
                    ''--enable-threads'', ''--enable-mpi'', ''--enable-sse2'']\<rparr>,
           \<lparr>wdir = ''long-double'', command = ''../configure'',
            args = [''--enable-long-double'', ''--prefix=/opt/fftw'', ''--enable-shared'',
                    ''--enable-threads'', ''--enable-mpi'']\<rparr>]
                 \<and> (\<forall>i \<in> set q. command i = ''make'' \<and> args i = []))"
    by (elim conjE)
  with v(1) have "\<not> isl (build fftw_3 {''double'', ''float'', ''long-double''})
     \<and> map wdir (projr (build fftw_3 {''double'', ''float'', ''long-double''}))
       = [''double'', ''float'', ''long-double'']"
    by (simp add: b)
  with v fftw_3_configure show ?thesis by (intro conjI) simp_all
qed

text \<open>
  Claim C4 as stated fails for fftw 2.1.5 with the default variants: long_double is
  enabled, yet \<open>configure\<close> runs in \<open>double\<close> and \<open>float\<close> only, since the long-double and
  quad configurations ask for version 3 or later. (\<open>build\<close> has no such test: it then
  enters \<open>long-double\<close>, which was never created.)
\<close>

theorem long_double_not_configured_for_fftw_2:
  "v_long_double fftw_2
   \<and> configure fftw_2 ''/opt/fftw'' {} =
     Inr ({''double'', ''float''},
          [\<lparr>wdir = ''double'', command = ''../configure'',
            args = [''--prefix=/opt/fftw'', ''--enable-shared'', ''--enable-threads'',
                    ''--enable-type-prefix'', ''--enable-mpi'']\<rparr>,
           \<lparr>wdir = ''float'', command = ''../configure'',
            args = [''--enable-float'', ''--prefix=/opt/fftw'', ''--enable-shared'',
                    ''--enable-threads'', ''--enable-type-prefix'', ''--enable-mpi'']\<rparr>])
   \<and> build fftw_2 {''double'', ''float''} = Inl (OSError ''long-double'')"
proof -
  have "v_long_double fftw_2" by (simp add: fftw_2_def fftw_3_def)
  moreover have "build fftw_2 {''double'', ''float''} = Inl (OSError ''long-double'')"
    by (simp add: build_def precisions_def fftw_2_def fftw_3_def)
  ultimately show ?thesis using fftw_2_configure by simp
qed

section \<open>Enabling a variant adds flags\<close>

text \<open>The functions the closed forms are made of do not read the variants plumed and mpi;
  so the closed forms only grow when one of the two is switched on.\<close>

lemma plumed_update:
  "base_dflags (s\<lparr>plumed := x\<rparr>) = base_dflags s"
  "mpi_dflags (s\<lparr>plumed := x\<rparr>) = mpi_dflags s"
  "smm_dflags (s\<lparr>plumed := x\<rparr>) = smm_dflags s"
  "mpi_fcflags (s\<lparr>plumed := x\<rparr>) = mpi_fcflags s"
  "c_template (s\<lparr>plumed := x\<rparr>) = c_template s"
  "fc_template (s\<lparr>plumed := x\<rparr>) = fc_template s"
  "has_compiler (s\<lparr>plumed := x\<rparr>) c = has_compiler s c"
  "base_search_flags (s\<lparr>plumed := x\<rparr>) = base_search_flags s"
  "scalapack_libs (s\<lparr>plumed := x\<rparr>) = scalapack_libs s"
  "mpi_libs (s\<lparr>plumed := x\<rparr>) = mpi_libs s"
  "wannier (s\<lparr>plumed := x\<rparr>) = wannier s"
  "smm_libs (s\<lparr>plumed := x\<rparr>) env = smm_libs s env"
  "libxc_libs (s\<lparr>plumed := x\<rparr>) = libxc_libs s"
  "fftw_libs (s\<lparr>plumed := x\<rparr>) = fftw_libs s"
  "lapack_libs (s\<lparr>plumed := x\<rparr>) = lapack_libs s"
  "blas_libs (s\<lparr>plumed := x\<rparr>) = blas_libs s"
  "with_static (s\<lparr>plumed := x\<rparr>) q = with_static s q"
  by (simp_all add: base_dflags_def mpi_dflags_def elpa_dflag_def smm_dflags_def mpi_fcflags_def
      elpa_include_def c_template_def fc_template_def has_compiler_def base_search_flags_def
      scalapack_libs_def mpi_libs_def wannier_def smm_libs_def libxc_libs_def fftw_libs_def
      lapack_libs_def blas_libs_def with_static_def)

lemma mpi_update:
  "base_dflags (s\<lparr>mpi := x\<rparr>) = base_dflags s"
  "mpi_dflags (s\<lparr>mpi := x\<rparr>) = mpi_dflags s"
  "smm_dflags (s\<lparr>mpi := x\<rparr>) = smm_dflags s"
  "mpi_fcflags (s\<lparr>mpi := x\<rparr>) = mpi_fcflags s"
  "c_template (s\<lparr>mpi := x\<rparr>) = c_template s"
  "fc_template (s\<lparr>mpi := x\<rparr>) = fc_template s"
  "has_compiler (s\<lparr>mpi := x\<rparr>) c = has_compiler s c"
  "base_search_flags (s\<lparr>mpi := x\<rparr>) = base_search_flags s"
  "scalapack_libs (s\<lparr>mpi := x\<rparr>) = scalapack_libs s"
  "mpi_libs (s\<lparr>mpi := x\<rparr>) = mpi_libs s"
  "wannier (s\<lparr>mpi := x\<rparr>) = wannier s"
  "smm_libs (s\<lparr>mpi := x\<rparr>) env = smm_libs s env"
  "libxc_libs (s\<lparr>mpi := x\<rparr>) = libxc_libs s"
  "fftw_libs (s\<lparr>mpi := x\<rparr>) = fftw_libs s"
  "lapack_libs (s\<lparr>mpi := x\<rparr>) = lapack_libs s"
  "blas_libs (s\<lparr>mpi := x\<rparr>) = blas_libs s"
  "with_static (s\<lparr>mpi := x\<rparr>) q = with_static s q"
  by (simp_all add: base_dflags_def mpi_dflags_def elpa_dflag_def smm_dflags_def mpi_fcflags_def
      elpa_include_def c_template_def fc_template_def has_compiler_def base_search_flags_def
      scalapack_libs_def mpi_libs_def wannier_def smm_libs_def libxc_libs_def fftw_libs_def
      lapack_libs_def blas_libs_def with_static_def)

lemma closed_forms_plumed:
  "set (all_dflags (s\<lparr>plumed := False\<rparr>)) \<subseteq> set (all_dflags (s\<lparr>plumed := True\<rparr>))"
  "set (all_fcflags (s\<lparr>plumed := False\<rparr>)) \<subseteq> set (all_fcflags (s\<lparr>plumed := True\<rparr>))"
  "set (all_ldflags (s\<lparr>plumed := False\<rparr>)) \<subseteq> set (all_ldflags (s\<lparr>plumed := True\<rparr>))"
  "set (all_libs (s\<lparr>plumed := False\<rparr>) env) \<subseteq> set (all_libs (s\<lparr>plumed := True\<rparr>) env)"
  by (auto simp add: all_dflags_def all_fcflags_def all_ldflags_def all_libs_def plumed_update)

lemma closed_forms_mpi:
  "set (all_dflags (s\<lparr>mpi := False\<rparr>)) \<subseteq> set (all_dflags (s\<lparr>mpi := True\<rparr>))"
  "set (all_fcflags (s\<lparr>mpi := False\<rparr>)) \<subseteq> set (all_fcflags (s\<lparr>mpi := True\<rparr>))"
  "set (all_ldflags (s\<lparr>mpi := False\<rparr>)) \<subseteq> set (all_ldflags (s\<lparr>mpi := True\<rparr>))"
  "set (all_libs (s\<lparr>mpi := False\<rparr>) env) \<subseteq> set (all_libs (s\<lparr>mpi := True\<rparr>) env)"
  by (auto simp add: all_dflags_def all_fcflags_def all_ldflags_def all_libs_def mpi_update)

lemma write_makefile_succeeds_iff:
  "(\<exists>b. write_makefile s env isfile = Inr b) \<longleftrightarrow>
     (name (compiler s) = ''gcc'' \<or> name (compiler s) = ''intel'')
     \<and> \<not> (smm s = Libsmm
            \<and> (env ''LIBSMM_PATH'' = None \<or> \<not> isfile (the (env ''LIBSMM_PATH''))))"
proof (cases "name (compiler s) = ''gcc'' \<or> name (compiler s) = ''intel''")
  case True
  show ?thesis using True by (simp add: write_makefile_known[OF True])
next
  case False
  then have "write_makefile s env isfile = Inl (KeyError (name (compiler s)))"
    by (simp add: write_makefile_unknown)
  with False show ?thesis by simp
qed

lemma flags_subsetI:
  assumes w1: "write_makefile s1 env isfile = Inr b1"
    and w2: "write_makefile s2 env isfile = Inr b2"
    and t: "c_template s1 = c_template s2"
    and d: "set (all_dflags s1) \<subseteq> set (all_dflags s2)"
    and f: "set (all_fcflags s1) \<subseteq> set (all_fcflags s2)"
    and l: "set (all_ldflags s1) \<subseteq> set (all_ldflags s2)"
    and lb: "set (all_libs s1 env) \<subseteq> set (all_libs s2 env)"
  shows "flags_subset b1 b2"
  unfolding flags_subset_def write_makefile_channels[OF w1] write_makefile_channels[OF w2]
  using t d f l lb by auto

lemma plumed_pair:
  assumes w: "write_makefile (s\<lparr>plumed := True\<rparr>) env isfile = Inr b2"
  shows "\<exists>b1. write_makefile (s\<lparr>plumed := False\<rparr>) env isfile = Inr b1 \<and> flags_subset b1 b2"
proof -
  from w have "\<exists>b. write_makefile (s\<lparr>plumed := True\<rparr>) env isfile = Inr b" ..
  then have "\<exists>b. write_makefile (s\<lparr>plumed := False\<rparr>) env isfile = Inr b"
    unfolding write_makefile_succeeds_iff by simp
  then obtain b1 where w1: "write_makefile (s\<lparr>plumed := False\<rparr>) env isfile = Inr b1" ..
  have "flags_subset b1 b2"
    using w1 w by (rule flags_subsetI) (simp_all add: plumed_update closed_forms_plumed)
  with w1 show ?thesis by (intro exI[where x=b1] conjI)
qed

lemma mpi_pair:
  assumes w: "write_makefile (s\<lparr>mpi := True\<rparr>) env isfile = Inr b2"
  shows "\<exists>b1. write_makefile (s\<lparr>mpi := False\<rparr>) env isfile = Inr b1 \<and> flags_subset b1 b2"
proof -
  from w have "\<exists>b. write_makefile (s\<lparr>mpi := True\<rparr>) env isfile = Inr b" ..
  then have "\<exists>b. write_makefile (s\<lparr>mpi := False\<rparr>) env isfile = Inr b"
    unfolding write_makefile_succeeds_iff by simp
  then obtain b1 where w1: "write_makefile (s\<lparr>mpi := False\<rparr>) env isfile = Inr b1" ..
  have "flags_subset b1 b2"
    using w1 w by (rule flags_subsetI) (simp_all add: mpi_update closed_forms_mpi)
  with w1 show ?thesis by (intro exI[where x=b1] conjI)
qed

lemma configure_plan_options:
  assumes "configure s prefix dirs = Inr (d, p)"
  obtains options where "configure_options s prefix = Inr options"
    and "plan_options p =
      (if v_double s then set options \<union> set (simd_options s) else {})
      \<union> (if v_float s then insert ''--enable-float'' (set options \<union> set (simd_options s)) else {})
      \<union> (if at_least_3 (fftw_version s) \<and> v_long_double s
         then insert ''--enable-long-double'' (set options) else {})
      \<union> (if at_least_3 (fftw_version s) \<and> v_quad s
         then insert ''--enable-quad-precision'' (set options) else {})"
proof -
  from assms obtain options where o: "configure_options s prefix = Inr options"
    and p: "p = (if v_double s then [configure_in ''double'' (options @ simd_options s)] else [])
            @ (if v_float s
               then [configure_in ''float'' (''--enable-float'' # options @ simd_options s)]
               else [])
            @ (if at_least_3 (fftw_version s) \<and> v_long_double s
               then [configure_in ''long-double'' (''--enable-long-double'' # options)] else [])
            @ (if at_least_3 (fftw_version s) \<and> v_quad s
               then [configure_in ''quad'' (''--enable-quad-precision'' # options)] else [])"
    by (rule configure_Inr)
  have "plan_options p =
      (if v_double s then set options \<union> set (simd_options s) else {})
      \<union> (if v_float s then insert ''--enable-float'' (set options \<union> set (simd_options s)) else {})
      \<union> (if at_least_3 (fftw_version s) \<and> v_long_double s
         then insert ''--enable-long-double'' (set options) else {})
      \<union> (if at_least_3 (fftw_version s) \<and> v_quad s
         then insert ''--enable-quad-precision'' (set options) else {})"
    unfolding p plan_options_def by (simp add: configure_in_def)
  with o show ?thesis by (rule that)
qed

lemma configure_succeeds:
  "configure_options s prefix = Inr options \<Longrightarrow> \<exists>d p. configure s prefix dirs = Inr (d, p)"
  by (simp add: configure_def Let_def)

lemma plan_options_mono:
  assumes c2: "configure s2 prefix dirs = Inr (d2, p2)"
    and o1: "\<And>o2. configure_options s2 prefix = Inr o2 \<Longrightarrow>
               \<exists>o1. configure_options s1 prefix = Inr o1 \<and> set o1 \<subseteq> set o2"
    and same: "fftw_version s1 = fftw_version s2" "simd_options s1 = simd_options s2"
    and v: "v_double s1 \<longrightarrow> v_double s2" "v_float s1 \<longrightarrow> v_float s2"
      "v_long_double s1 \<longrightarrow> v_long_double s2" "v_quad s1 \<longrightarrow> v_quad s2"
  shows "\<exists>d1 p1. configure s1 prefix dirs = Inr (d1, p1) \<and> plan_options p1 \<subseteq> plan_options p2"
proof -
  from c2 obtain opt2 where opt2: "configure_options s2 prefix = Inr opt2"
    and f2: "plan_options p2 =
      (if v_double s2 then set opt2 \<union> set (simd_options s2) else {})
      \<union> (if v_float s2 then insert ''--enable-float'' (set opt2 \<union> set (simd_options s2)) else {})
      \<union> (if at_least_3 (fftw_version s2) \<and> v_long_double s2
         then insert ''--enable-long-double'' (set opt2) else {})
      \<union> (if at_least_3 (fftw_version s2) \<and> v_quad s2
         then insert ''--enable-quad-precision'' (set opt2) else {})"
    by (rule configure_plan_options)
  from o1[OF opt2] obtain opt1 where opt1: "configure_options s1 prefix = Inr opt1"
    and sub: "set opt1 \<subseteq> set opt2" by (elim exE conjE)
  from configure_succeeds[OF opt1, of dirs]
  obtain d1 p1 where c1: "configure s1 prefix dirs = Inr (d1, p1)" by (elim exE)
  from c1 obtain opt1' where opt1': "configure_options s1 prefix = Inr opt1'"
    and f1: "plan_options p1 =
      (if v_double s1 then set opt1' \<union> set (simd_options s1) else {})
      \<union> (if v_float s1 then insert ''--enable-float'' (set opt1' \<union> set (simd_options s1)) else {})
      \<union> (if at_least_3 (fftw_version s1) \<and> v_long_double s1
         then insert ''--enable-long-double'' (set opt1') else {})
      \<union> (if at_least_3 (fftw_version s1) \<and> v_quad s1
         then insert ''--enable-quad-precision'' (set opt1') else {})"
    by (rule configure_plan_options)
  from opt1 opt1' have e: "opt1' = opt1" by simp
  have i: "(if a then X else {}) \<subseteq> (if b then Y else {})"
    if "a \<longrightarrow> b" "X \<subseteq> Y" for a b and X Y :: "string set"
    using that by auto
  have u: "set opt1 \<union> set (simd_options s2) \<subseteq> set opt2 \<union> set (simd_options s2)"
    using sub by (rule Un_mono) (rule subset_refl)
  have "plan_options p1 \<subseteq> plan_options p2"
    unfolding f1 f2 e same
    by (intro Un_mono i insert_mono u sub v) (simp_all add: v)
  with c1 show ?thesis by (intro exI[where x=d1] exI[where x=p1] conjI)
qed

lemma precision_update:
  "configure_options (s\<lparr>v_double := x\<rparr>) prefix = configure_options s prefix"
  "configure_options (s\<lparr>v_float := x\<rparr>) prefix = configure_options s prefix"
  "configure_options (s\<lparr>v_long_double := x\<rparr>) prefix = configure_options s prefix"
  "configure_options (s\<lparr>v_quad := x\<rparr>) prefix = configure_options s prefix"
  "configure_options (s\<lparr>v_pfft_patches := x\<rparr>) prefix = configure_options s prefix"
  by (simp_all add: configure_options_def base_options_def has_compiler_def Let_def)

lemma simd_update:
  "simd_options (s\<lparr>v_double := x\<rparr>) = simd_options s"
  "simd_options (s\<lparr>v_float := x\<rparr>) = simd_options s"
  "simd_options (s\<lparr>v_long_double := x\<rparr>) = simd_options s"
  "simd_options (s\<lparr>v_quad := x\<rparr>) = simd_options s"
  "simd_options (s\<lparr>v_pfft_patches := x\<rparr>) = simd_options s"
  "simd_options (s\<lparr>v_openmp := x\<rparr>) = simd_options s"
  "simd_options (s\<lparr>v_mpi := x\<rparr>) = simd_options s"
  by (simp_all add: simd_options_def)

lemma base_options_update:
  "base_options (s\<lparr>v_openmp := x\<rparr>) prefix = base_options s prefix"
  "base_options (s\<lparr>v_mpi := x\<rparr>) prefix = base_options s prefix"
  by (simp_all add: base_options_def)

lemma options_openmp:
  assumes "configure_options (s\<lparr>v_openmp := True\<rparr>) prefix = Inr o2"
  shows "\<exists>o1. configure_options (s\<lparr>v_openmp := False\<rparr>) prefix = Inr o1 \<and> set o1 \<subseteq> set o2"
proof -
  have o1: "configure_options (s\<lparr>v_openmp := False\<rparr>) prefix
            = Inr (base_options s prefix @ (if v_mpi s then [''--enable-mpi''] else []))"
    by (simp add: configure_options_def base_options_update)
  from assms have o2: "o2 = (if upto_2 (fftw_version s)
                       then [''CFLAGS='' @ openmp_flag (compiler s)] else [])
                      @ base_options s prefix @ [''--enable-openmp'']
                      @ (if v_mpi s then [''--enable-mpi''] else [])"
    by (simp add: configure_options_def base_options_update has_compiler_def Let_def
        split: if_splits)
  have "set (base_options s prefix @ (if v_mpi s then [''--enable-mpi''] else [])) \<subseteq> set o2"
    unfolding o2 by (simp only: set_append) (intro le_supI1 le_supI2 Un_least subset_refl | simp)+
  with o1 show ?thesis by (intro exI conjI)
qed

lemma options_mpi:
  assumes "configure_options (s\<lparr>v_mpi := True\<rparr>) prefix = Inr o2"
  shows "\<exists>o1. configure_options (s\<lparr>v_mpi := False\<rparr>) prefix = Inr o1 \<and> set o1 \<subseteq> set o2"
proof (cases "v_openmp s")
  case False
  have o1: "configure_options (s\<lparr>v_mpi := False\<rparr>) prefix = Inr (base_options s prefix)"
    using False by (simp add: configure_options_def base_options_update)
  from assms False have o2: "o2 = base_options s prefix @ [''--enable-mpi'']"
    by (simp add: configure_options_def base_options_update)
  have "set (base_options s prefix) \<subseteq> set o2" unfolding o2 by (simp add: subset_insertI)
  with o1 show ?thesis by (intro exI conjI)
next
  case True
  from assms True
  have n: "\<not> (has_compiler s ''clang'' \<and> endswith (version_str (compiler s)) ''-apple'')"
    and o2: "o2 = (if upto_2 (fftw_version s)
                       then [''CFLAGS='' @ openmp_flag (compiler s)] else [])
                      @ base_options s prefix @ [''--enable-openmp''] @ [''--enable-mpi'']"
    by (simp_all add: configure_options_def base_options_update has_compiler_def Let_def
        split: if_splits)
  have o1: "configure_options (s\<lparr>v_mpi := False\<rparr>) prefix
            = Inr ((if upto_2 (fftw_version s)
                       then [''CFLAGS='' @ openmp_flag (compiler s)] else [])
                      @ base_options s prefix @ [''--enable-openmp''])"
    using True n by (simp add: configure_options_def base_options_update has_compiler_def)
  have "set ((if upto_2 (fftw_version s)
                       then [''CFLAGS='' @ openmp_flag (compiler s)] else [])
                      @ base_options s prefix @ [''--enable-openmp'']) \<subseteq> set o2"
    unfolding o2 by (simp only: append_assoc[symmetric] set_append Un_upper1)
  with o1 show ?thesis by (intro exI conjI)
qed

lemma v_openmp_pair:
  assumes "configure (s\<lparr>v_openmp := True\<rparr>) prefix dirs = Inr (d2, p2)"
  shows "\<exists>d1 p1. configure (s\<lparr>v_openmp := False\<rparr>) prefix dirs = Inr (d1, p1)
                 \<and> plan_options p1 \<subseteq> plan_options p2"
  using assms
proof (rule plan_options_mono)
  fix o2 assume "configure_options (s\<lparr>v_openmp := True\<rparr>) prefix = Inr o2"
  then show "\<exists>o1. configure_options (s\<lparr>v_openmp := False\<rparr>) prefix = Inr o1 \<and> set o1 \<subseteq> set o2"
    by (rule options_openmp)
qed (simp_all add: simd_update)

lemma v_mpi_pair:
  assumes "configure (s\<lparr>v_mpi := True\<rparr>) prefix dirs = Inr (d2, p2)"
  shows "\<exists>d1 p1. configure (s\<lparr>v_mpi := False\<rparr>) prefix dirs = Inr (d1, p1)
                 \<and> plan_options p1 \<subseteq> plan_options p2"
  using assms
proof (rule plan_options_mono)
  fix o2 assume "configure_options (s\<lparr>v_mpi := True\<rparr>) prefix = Inr o2"
  then show "\<exists>o1. configure_options (s\<lparr>v_mpi := False\<rparr>) prefix = Inr o1 \<and> set o1 \<subseteq> set o2"
    by (rule options_mpi)
qed (simp_all add: simd_update)

lemma v_float_pair:
  assumes "configure (s\<lparr>v_float := True\<rparr>) prefix dirs = Inr (d2, p2)"
  shows "\<exists>d1 p1. configure (s\<lparr>v_float := False\<rparr>) prefix dirs = Inr (d1, p1)
                 \<and> plan_options p1 \<subseteq> plan_options p2"
  using assms
proof (rule plan_options_mono)
  fix o2 assume "configure_options (s\<lparr>v_float := True\<rparr>) prefix = Inr o2"
  then show "\<exists>o1. configure_options (s\<lparr>v_float := False\<rparr>) prefix = Inr o1 \<and> set o1 \<subseteq> set o2"
    by (simp add: precision_update)
qed (simp_all add: simd_update)

lemma v_double_pair:
  assumes "configure (s\<lparr>v_double := True\<rparr>) prefix dirs = Inr (d2, p2)"
  shows "\<exists>d1 p1. configure (s\<lparr>v_double := False\<rparr>) prefix dirs = Inr (d1, p1)
                 \<and> plan_options p1 \<subseteq> plan_options p2"
  using assms
proof (rule plan_options_mono)
  fix o2 assume "configure_options (s\<lparr>v_double := True\<rparr>) prefix = Inr o2"
  then show "\<exists>o1. configure_options (s\<lparr>v_double := False\<rparr>) prefix = Inr o1 \<and> set o1 \<subseteq> set o2"
    by (simp add: precision_update)
qed (simp_all add: simd_update)

lemma v_long_double_pair:
  assumes "configure (s\<lparr>v_long_double := True\<rparr>) prefix dirs = Inr (d2, p2)"
  shows "\<exists>d1 p1. configure (s\<lparr>v_long_double := False\<rparr>) prefix dirs = Inr (d1, p1)
                 \<and> plan_options p1 \<subseteq> plan_options p2"
  using assms
proof (rule plan_options_mono)
  fix o2 assume "configure_options (s\<lparr>v_long_double := True\<rparr>) prefix = Inr o2"
  then show "\<exists>o1. configure_options (s\<lparr>v_long_double := False\<rparr>) prefix = Inr o1 \<and> set o1 \<subseteq> set o2"
    by (simp add: precision_update)
qed (simp_all add: simd_update)

lemma v_quad_pair:
  assumes "configure (s\<lparr>v_quad := True\<rparr>) prefix dirs = Inr (d2, p2)"
  shows "\<exists>d1 p1. configure (s\<lparr>v_quad := False\<rparr>) prefix dirs = Inr (d1, p1)
                 \<and> plan_options p1 \<subseteq> plan_options p2"
  using assms
proof (rule plan_options_mono)
  fix o2 assume "configure_options (s\<lparr>v_quad := True\<rparr>) prefix = Inr o2"
  then show "\<exists>o1. configure_options (s\<lparr>v_quad := False\<rparr>) prefix = Inr o1 \<and> set o1 \<subseteq> set o2"
    by (simp add: precision_update)
qed (simp_all add: simd_update)

lemma v_pfft_patches_pair:
  assumes "configure (s\<lparr>v_pfft_patches := True\<rparr>) prefix dirs = Inr (d2, p2)"
  shows "\<exists>d1 p1. configure (s\<lparr>v_pfft_patches := False\<rparr>) prefix dirs = Inr (d1, p1)
                 \<and> plan_options p1 \<subseteq> plan_options p2"
  using assms
proof (rule plan_options_mono)
  fix o2 assume "configure_options (s\<lparr>v_pfft_patches := True\<rparr>) prefix = Inr o2"
  then show "\<exists>o1. configure_options (s\<lparr>v_pfft_patches := False\<rparr>) prefix = Inr o1 \<and> set o1 \<subseteq> set o2"
    by (simp add: precision_update)
qed (simp_all add: simd_update)

text \<open>
  Claim C6, amended. For two Specs that differ only in one boolean variant other than
  cp2k's static (plumed or mpi of cp2k; openmp, mpi, float, double, long_double, quad or
  pfft_patches of fftw), whenever the translation of the Spec with the variant
  enabled succeeds, the translation of the Spec with the variant disabled succeeds too, and
  its flag set is a set-subset of the other, channel by channel for cp2k and over the
  options passed to \<open>configure\<close> for fftw.
\<close>

theorem enabled_variant_adds_flags:
  "(write_makefile (s\<lparr>plumed := True\<rparr>) env isfile = Inr b2 \<longrightarrow>
        (\<exists>b1. write_makefile (s\<lparr>plumed := False\<rparr>) env isfile = Inr b1 \<and> flags_subset b1 b2))
   \<and> (write_makefile (s\<lparr>mpi := True\<rparr>) env isfile = Inr b2 \<longrightarrow>
        (\<exists>b1. write_makefile (s\<lparr>mpi := False\<rparr>) env isfile = Inr b1 \<and> flags_subset b1 b2))
   \<and> (configure (f\<lparr>v_openmp := True\<rparr>) prefix dirs = Inr (d2, p2) \<longrightarrow>
        (\<exists>d1 p1. configure (f\<lparr>v_openmp := False\<rparr>) prefix dirs = Inr (d1, p1)
                 \<and> plan_options p1 \<subseteq> plan_options p2))
   \<and> (configure (f\<lparr>v_mpi := True\<rparr>) prefix dirs = Inr (d2, p2) \<longrightarrow>
        (\<exists>d1 p1. configure (f\<lparr>v_mpi := False\<rparr>) prefix dirs = Inr (d1, p1)
                 \<and> plan_options p1 \<subseteq> plan_options p2))
   \<and> (configure (f\<lparr>v_float := True\<rparr>) prefix dirs = Inr (d2, p2) \<longrightarrow>
        (\<exists>d1 p1. configure (f\<lparr>v_float := False\<rparr>) prefix dirs = Inr (d1, p1)
                 \<and> plan_options p1 \<subseteq> plan_options p2))
   \<and> (configure (f\<lparr>v_double := True\<rparr>) prefix dirs = Inr (d2, p2) \<longrightarrow>
        (\<exists>d1 p1. configure (f\<lparr>v_double := False\<rparr>) prefix dirs = Inr (d1, p1)
                 \<and> plan_options p1 \<subseteq> plan_options p2))
   \<and> (configure (f\<lparr>v_long_double := True\<rparr>) prefix dirs = Inr (d2, p2) \<longrightarrow>
        (\<exists>d1 p1. configure (f\<lparr>v_long_double := False\<rparr>) prefix dirs = Inr (d1, p1)
                 \<and> plan_options p1 \<subseteq> plan_options p2))
   \<and> (configure (f\<lparr>v_quad := True\<rparr>) prefix dirs = Inr (d2, p2) \<longrightarrow>
        (\<exists>d1 p1. configure (f\<lparr>v_quad := False\<rparr>) prefix dirs = Inr (d1, p1)
                 \<and> plan_options p1 \<subseteq> plan_options p2))
   \<and> (configure (f\<lparr>v_pfft_patches := True\<rparr>) prefix dirs = Inr (d2, p2) \<longrightarrow>
        (\<exists>d1 p1. configure (f\<lparr>v_pfft_patches := False\<rparr>) prefix dirs = Inr (d1, p1)
                 \<and> plan_options p1 \<subseteq> plan_options p2))"
  by (intro conjI impI plumed_pair mpi_pair v_openmp_pair v_mpi_pair v_float_pair v_double_pair v_long_double_pair v_quad_pair v_pfft_patches_pair)

lemma configure_total:
  assumes "\<not> has_compiler s ''clang''"
  shows "\<exists>d p. configure s prefix dirs = Inr (d, p)"
proof -
  have "\<exists>options. configure_options s prefix = Inr options"
    using assms by (simp add: configure_options_def Let_def)
  then obtain options where "configure_options s prefix = Inr options" ..
  then show ?thesis by (rule configure_succeeds)
qed

theorem enabled_variant_adds_flags_witness:
  "\<not> isl (write_makefile (cp2k_default\<lparr>plumed := True\<rparr>) no_env no_file)
   \<and> flags_subset (projr (write_makefile (cp2k_default\<lparr>plumed := False\<rparr>) no_env no_file))
                    (projr (write_makefile (cp2k_default\<lparr>plumed := True\<rparr>) no_env no_file))
   \<and> \<not> isl (write_makefile (cp2k_default\<lparr>mpi := True\<rparr>) no_env no_file)
   \<and> flags_subset (projr (write_makefile (cp2k_default\<lparr>mpi := False\<rparr>) no_env no_file))
                    (projr (write_makefile (cp2k_default\<lparr>mpi := True\<rparr>) no_env no_file))
   \<and> \<not> isl (configure (fftw_3\<lparr>v_openmp := True\<rparr>) ''/opt/fftw'' {})
   \<and> plan_options (snd (projr (configure (fftw_3\<lparr>v_openmp := False\<rparr>) ''/opt/fftw'' {})))
       \<subseteq> plan_options (snd (projr (configure (fftw_3\<lparr>v_openmp := True\<rparr>) ''/opt/fftw'' {})))
   \<and> \<not> isl (configure (fftw_3\<lparr>v_mpi := True\<rparr>) ''/opt/fftw'' {})
   \<and> plan_options (snd (projr (configure (fftw_3\<lparr>v_mpi := False\<rparr>) ''/opt/fftw'' {})))
       \<subseteq> plan_options (snd (projr (configure (fftw_3\<lparr>v_mpi := True\<rparr>) ''/opt/fftw'' {})))
   \<and> \<not> isl (configure (fftw_3\<lparr>v_float := True\<rparr>) ''/opt/fftw'' {})
   \<and> plan_options (snd (projr (configure (fftw_3\<lparr>v_float := False\<rparr>) ''/opt/fftw'' {})))
       \<subseteq> plan_options (snd (projr (configure (fftw_3\<lparr>v_float := True\<rparr>) ''/opt/fftw'' {})))
   \<and> \<not> isl (configure (fftw_3\<lparr>v_double := True\<rparr>) ''/opt/fftw'' {})
   \<and> plan_options (snd (projr (configure (fftw_3\<lparr>v_double := False\<rparr>) ''/opt/fftw'' {})))
       \<subseteq> plan_options (snd (projr (configure (fftw_3\<lparr>v_double := True\<rparr>) ''/opt/fftw'' {})))
   \<and> \<not> isl (configure (fftw_3\<lparr>v_long_double := True\<rparr>) ''/opt/fftw'' {})
   \<and> plan_options (snd (projr (configure (fftw_3\<lparr>v_long_double := False\<rparr>) ''/opt/fftw'' {})))
       \<subseteq> plan_options (snd (projr (configure (fftw_3\<lparr>v_long_double := True\<rparr>) ''/opt/fftw'' {})))
   \<and> \<not> isl (configure (fftw_3\<lparr>v_quad := True\<rparr>) ''/opt/fftw'' {})
   \<and> plan_options (snd (projr (configure (fftw_3\<lparr>v_quad := False\<rparr>) ''/opt/fftw'' {})))
       \<subseteq> plan_options (snd (projr (configure (fftw_3\<lparr>v_quad := True\<rparr>) ''/opt/fftw'' {})))
   \<and> \<not> isl (configure (fftw_3\<lparr>v_pfft_patches := True\<rparr>) ''/opt/fftw'' {})
   \<and> plan_options (snd (projr (configure (fftw_3\<lparr>v_pfft_patches := False\<rparr>) ''/opt/fftw'' {})))
       \<subseteq> plan_options (snd (projr (configure (fftw_3\<lparr>v_pfft_patches := True\<rparr>) ''/opt/fftw'' {})))"
proof -
  have "\<exists>b. write_makefile (cp2k_default\<lparr>plumed := True\<rparr>) no_env no_file = Inr b"
    unfolding write_makefile_succeeds_iff by (simp add: cp2k_default_def gcc_def)
  then obtain b0 where b0: "write_makefile (cp2k_default\<lparr>plumed := True\<rparr>) no_env no_file = Inr b0" ..
  have "\<exists>b. write_makefile (cp2k_default\<lparr>plumed := True\<rparr>) no_env no_file = Inr b"
    unfolding write_makefile_succeeds_iff by (simp add: cp2k_default_def gcc_def)
  then obtain b2 where b2: "write_makefile (cp2k_default\<lparr>plumed := True\<rparr>) no_env no_file = Inr b2" ..
  from enabled_variant_adds_flags[where s=cp2k_default and env=no_env and isfile=no_file
      and ?b2.0=b2 and f=fftw_3 and prefix="''/opt/fftw''" and dirs="{}" and ?d2.0="{}"
      and ?p2.0="[]"]
  have "write_makefile (cp2k_default\<lparr>plumed := True\<rparr>) no_env no_file = Inr b2 \<longrightarrow>
        (\<exists>b1. write_makefile (cp2k_default\<lparr>plumed := False\<rparr>) no_env no_file = Inr b1
              \<and> flags_subset b1 b2)"
    by (elim conjE)
  from this b2 have "\<exists>b1. write_makefile (cp2k_default\<lparr>plumed := False\<rparr>) no_env no_file = Inr b1
              \<and> flags_subset b1 b2" by (rule mp)
  then obtain b1 where "write_makefile (cp2k_default\<lparr>plumed := False\<rparr>) no_env no_file = Inr b1"
    and "flags_subset b1 b2" by (elim exE conjE)
  with b2 have c_plumed: "\<not> isl (write_makefile (cp2k_default\<lparr>plumed := True\<rparr>) no_env no_file)
   \<and> flags_subset (projr (write_makefile (cp2k_default\<lparr>plumed := False\<rparr>) no_env no_file))
                    (projr (write_makefile (cp2k_default\<lparr>plumed := True\<rparr>) no_env no_file))"
    by simp
  have "\<exists>b. write_makefile (cp2k_default\<lparr>mpi := True\<rparr>) no_env no_file = Inr b"
    unfolding write_makefile_succeeds_iff by (simp add: cp2k_default_def gcc_def)
  then obtain b2 where b2: "write_makefile (cp2k_default\<lparr>mpi := True\<rparr>) no_env no_file = Inr b2" ..
  from enabled_variant_adds_flags[where s=cp2k_default and env=no_env and isfile=no_file
      and ?b2.0=b2 and f=fftw_3 and prefix="''/opt/fftw''" and dirs="{}" and ?d2.0="{}"
      and ?p2.0="[]"]
  have "write_makefile (cp2k_default\<lparr>mpi := True\<rparr>) no_env no_file = Inr b2 \<longrightarrow>
        (\<exists>b1. write_makefile (cp2k_default\<lparr>mpi := False\<rparr>) no_env no_file = Inr b1
              \<and> flags_subset b1 b2)"
    by (elim conjE)
  from this b2 have "\<exists>b1. write_makefile (cp2k_default\<lparr>mpi := False\<rparr>) no_env no_file = Inr b1
              \<and> flags_subset b1 b2" by (rule mp)
  then obtain b1 where "write_makefile (cp2k_default\<lparr>mpi := False\<rparr>) no_env no_file = Inr b1"
    and "flags_subset b1 b2" by (elim exE conjE)
  with b2 have c_mpi: "\<not> isl (write_makefile (cp2k_default\<lparr>mpi := True\<rparr>) no_env no_file)
   \<and> flags_subset (projr (write_makefile (cp2k_default\<lparr>mpi := False\<rparr>) no_env no_file))
                    (projr (write_makefile (cp2k_default\<lparr>mpi := True\<rparr>) no_env no_file))"
    by simp
  have "\<exists>d p. configure (fftw_3\<lparr>v_openmp := True\<rparr>) ''/opt/fftw'' {} = Inr (d, p)"
    by (rule configure_total) (simp add: has_compiler_def fftw_3_def gcc_def)
  then obtain d2 p2 where c2: "configure (fftw_3\<lparr>v_openmp := True\<rparr>) ''/opt/fftw'' {} = Inr (d2, p2)"
    by (elim exE)
  from enabled_variant_adds_flags[where s=cp2k_default and env=no_env and isfile=no_file
      and ?b2.0=b0 and f=fftw_3 and prefix="''/opt/fftw''" and dirs="{}" and ?d2.0=d2
      and ?p2.0=p2]
  have "configure (fftw_3\<lparr>v_openmp := True\<rparr>) ''/opt/fftw'' {} = Inr (d2, p2) \<longrightarrow>
        (\<exists>d1 p1. configure (fftw_3\<lparr>v_openmp := False\<rparr>) ''/opt/fftw'' {} = Inr (d1, p1)
                 \<and> plan_options p1 \<subseteq> plan_options p2)"
    by (elim conjE)
  from this c2 have "\<exists>d1 p1. configure (fftw_3\<lparr>v_openmp := False\<rparr>) ''/opt/fftw'' {} = Inr (d1, p1)
                 \<and> plan_options p1 \<subseteq> plan_options p2" by (rule mp)
  then obtain d1 p1 where "configure (fftw_3\<lparr>v_openmp := False\<rparr>) ''/opt/fftw'' {} = Inr (d1, p1)"
    and "plan_options p1 \<subseteq> plan_options p2" by (elim exE conjE)
  with c2 have c_v_openmp: "\<not> isl (configure (fftw_3\<lparr>v_openmp := True\<rparr>) ''/opt/fftw'' {})
   \<and> plan_options (snd (projr (configure (fftw_3\<lparr>v_openmp := False\<rparr>) ''/opt/fftw'' {})))
       \<subseteq> plan_options (snd (projr (configure (fftw_3\<lparr>v_openmp := True\<rparr>) ''/opt/fftw'' {})))"
    by simp
  have "\<exists>d p. configure (fftw_3\<lparr>v_mpi := True\<rparr>) ''/opt/fftw'' {} = Inr (d, p)"
    by (rule configure_total) (simp add: has_compiler_def fftw_3_def gcc_def)
  then obtain d2 p2 where c2: "configure (fftw_3\<lparr>v_mpi := True\<rparr>) ''/opt/fftw'' {} = Inr (d2, p2)"
    by (elim exE)
  from enabled_variant_adds_flags[where s=cp2k_default and env=no_env and isfile=no_file
      and ?b2.0=b0 and f=fftw_3 and prefix="''/opt/fftw''" and dirs="{}" and ?d2.0=d2
      and ?p2.0=p2]
  have "configure (fftw_3\<lparr>v_mpi := True\<rparr>) ''/opt/fftw'' {} = Inr (d2, p2) \<longrightarrow>
        (\<exists>d1 p1. configure (fftw_3\<lparr>v_mpi := False\<rparr>) ''/opt/fftw'' {} = Inr (d1, p1)
                 \<and> plan_options p1 \<subseteq> plan_options p2)"
    by (elim conjE)
  from this c2 have "\<exists>d1 p1. configure (fftw_3\<lparr>v_mpi := False\<rparr>) ''/opt/fftw'' {} = Inr (d1, p1)
                 \<and> plan_options p1 \<subseteq> plan_options p2" by (rule mp)
  then obtain d1 p1 where "configure (fftw_3\<lparr>v_mpi := False\<rparr>) ''/opt/fftw'' {} = Inr (d1, p1)"
    and "plan_options p1 \<subseteq> plan_options p2" by (elim exE conjE)
  with c2 have c_v_mpi: "\<not> isl (configure (fftw_3\<lparr>v_mpi := True\<rparr>) ''/opt/fftw'' {})
   \<and> plan_options (snd (projr (configure (fftw_3\<lparr>v_mpi := False\<rparr>) ''/opt/fftw'' {})))
       \<subseteq> plan_options (snd (projr (configure (fftw_3\<lparr>v_mpi := True\<rparr>) ''/opt/fftw'' {})))"
    by simp
  have "\<exists>d p. configure (fftw_3\<lparr>v_float := True\<rparr>) ''/opt/fftw'' {} = Inr (d, p)"
    by (rule configure_total) (simp add: has_compiler_def fftw_3_def gcc_def)
  then obtain d2 p2 where c2: "configure (fftw_3\<lparr>v_float := True\<rparr>) ''/opt/fftw'' {} = Inr (d2, p2)"
    by (elim exE)
  from enabled_variant_adds_flags[where s=cp2k_default and env=no_env and isfile=no_file
      and ?b2.0=b0 and f=fftw_3 and prefix="''/opt/fftw''" and dirs="{}" and ?d2.0=d2
      and ?p2.0=p2]
  have "configure (fftw_3\<lparr>v_float := True\<rparr>) ''/opt/fftw'' {} = Inr (d2, p2) \<longrightarrow>
        (\<exists>d1 p1. configure (fftw_3\<lparr>v_float := False\<rparr>) ''/opt/fftw'' {} = Inr (d1, p1)
                 \<and> plan_options p1 \<subseteq> plan_options p2)"
    by (elim conjE)
  from this c2 have "\<exists>d1 p1. configure (fftw_3\<lparr>v_float := False\<rparr>) ''/opt/fftw'' {} = Inr (d1, p1)
                 \<and> plan_options p1 \<subseteq> plan_options p2" by (rule mp)
  then obtain d1 p1 where "configure (fftw_3\<lparr>v_float := False\<rparr>) ''/opt/fftw'' {} = Inr (d1, p1)"
    and "plan_options p1 \<subseteq> plan_options p2" by (elim exE conjE)
  with c2 have c_v_float: "\<not> isl (configure (fftw_3\<lparr>v_float := True\<rparr>) ''/opt/fftw'' {})
   \<and> plan_options (snd (projr (configure (fftw_3\<lparr>v_float := False\<rparr>) ''/opt/fftw'' {})))
       \<subseteq> plan_options (snd (projr (configure (fftw_3\<lparr>v_float := True\<rparr>) ''/opt/fftw'' {})))"
    by simp
  have "\<exists>d p. configure (fftw_3\<lparr>v_double := True\<rparr>) ''/opt/fftw'' {} = Inr (d, p)"
    by (rule configure_total) (simp add: has_compiler_def fftw_3_def gcc_def)
  then obtain d2 p2 where c2: "configure (fftw_3\<lparr>v_double := True\<rparr>) ''/opt/fftw'' {} = Inr (d2, p2)"
    by (elim exE)
  from enabled_variant_adds_flags[where s=cp2k_default and env=no_env and isfile=no_file
      and ?b2.0=b0 and f=fftw_3 and prefix="''/opt/fftw''" and dirs="{}" and ?d2.0=d2
      and ?p2.0=p2]
  have "configure (fftw_3\<lparr>v_double := True\<rparr>) ''/opt/fftw'' {} = Inr (d2, p2) \<longrightarrow>
        (\<exists>d1 p1. configure (fftw_3\<lparr>v_double := False\<rparr>) ''/opt/fftw'' {} = Inr (d1, p1)
                 \<and> plan_options p1 \<subseteq> plan_options p2)"
    by (elim conjE)
  from this c2 have "\<exists>d1 p1. configure (fftw_3\<lparr>v_double := False\<rparr>) ''/opt/fftw'' {} = Inr (d1, p1)
                 \<and> plan_options p1 \<subseteq> plan_options p2" by (rule mp)
  then obtain d1 p1 where "configure (fftw_3\<lparr>v_double := False\<rparr>) ''/opt/fftw'' {} = Inr (d1, p1)"
    and "plan_options p1 \<subseteq> plan_options p2" by (elim exE conjE)
  with c2 have c_v_double: "\<not> isl (configure (fftw_3\<lparr>v_double := True\<rparr>) ''/opt/fftw'' {})
   \<and> plan_options (snd (projr (configure (fftw_3\<lparr>v_double := False\<rparr>) ''/opt/fftw'' {})))
       \<subseteq> plan_options (snd (projr (configure (fftw_3\<lparr>v_double := True\<rparr>) ''/opt/fftw'' {})))"
    by simp
  have "\<exists>d p. configure (fftw_3\<lparr>v_long_double := True\<rparr>) ''/opt/fftw'' {} = Inr (d, p)"
    by (rule configure_total) (simp add: has_compiler_def fftw_3_def gcc_def)
  then obtain d2 p2 where c2: "configure (fftw_3\<lparr>v_long_double := True\<rparr>) ''/opt/fftw'' {} = Inr (d2, p2)"
    by (elim exE)
  from enabled_variant_adds_flags[where s=cp2k_default and env=no_env and isfile=no_file
      and ?b2.0=b0 and f=fftw_3 and prefix="''/opt/fftw''" and dirs="{}" and ?d2.0=d2
      and ?p2.0=p2]
  have "configure (fftw_3\<lparr>v_long_double := True\<rparr>) ''/opt/fftw'' {} = Inr (d2, p2) \<longrightarrow>
        (\<exists>d1 p1. configure (fftw_3\<lparr>v_long_double := False\<rparr>) ''/opt/fftw'' {} = Inr (d1, p1)
                 \<and> plan_options p1 \<subseteq> plan_options p2)"
    by (elim conjE)
  from this c2 have "\<exists>d1 p1. configure (fftw_3\<lparr>v_long_double := False\<rparr>) ''/opt/fftw'' {} = Inr (d1, p1)
                 \<and> plan_options p1 \<subseteq> plan_options p2" by (rule mp)
  then obtain d1 p1 where "configure (fftw_3\<lparr>v_long_double := False\<rparr>) ''/opt/fftw'' {} = Inr (d1, p1)"
    and "plan_options p1 \<subseteq> plan_options p2" by (elim exE conjE)
  with c2 have c_v_long_double: "\<not> isl (configure (fftw_3\<lparr>v_long_double := True\<rparr>) ''/opt/fftw'' {})
   \<and> plan_options (snd (projr (configure (fftw_3\<lparr>v_long_double := False\<rparr>) ''/opt/fftw'' {})))
       \<subseteq> plan_options (snd (projr (configure (fftw_3\<lparr>v_long_double := True\<rparr>) ''/opt/fftw'' {})))"
    by simp
  have "\<exists>d p. configure (fftw_3\<lparr>v_quad := True\<rparr>) ''/opt/fftw'' {} = Inr (d, p)"
    by (rule configure_total) (simp add: has_compiler_def fftw_3_def gcc_def)
  then obtain d2 p2 where c2: "configure (fftw_3\<lparr>v_quad := True\<rparr>) ''/opt/fftw'' {} = Inr (d2, p2)"
    by (elim exE)
  from enabled_variant_adds_flags[where s=cp2k_default and env=no_env and isfile=no_file
      and ?b2.0=b0 and f=fftw_3 and prefix="''/opt/fftw''" and dirs="{}" and ?d2.0=d2
      and ?p2.0=p2]
  have "configure (fftw_3\<lparr>v_quad := True\<rparr>) ''/opt/fftw'' {} = Inr (d2, p2) \<longrightarrow>
        (\<exists>d1 p1. configure (fftw_3\<lparr>v_quad := False\<rparr>) ''/opt/fftw'' {} = Inr (d1, p1)
                 \<and> plan_options p1 \<subseteq> plan_options p2)"
    by (elim conjE)
  from this c2 have "\<exists>d1 p1. configure (fftw_3\<lparr>v_quad := False\<rparr>) ''/opt/fftw'' {} = Inr (d1, p1)
                 \<and> plan_options p1 \<subseteq> plan_options p2" by (rule mp)
  then obtain d1 p1 where "configure (fftw_3\<lparr>v_quad := False\<rparr>) ''/opt/fftw'' {} = Inr (d1, p1)"
    and "plan_options p1 \<subseteq> plan_options p2" by (elim exE conjE)
  with c2 have c_v_quad: "\<not> isl (configure (fftw_3\<lparr>v_quad := True\<rparr>) ''/opt/fftw'' {})
   \<and> plan_options (snd (projr (configure (fftw_3\<lparr>v_quad := False\<rparr>) ''/opt/fftw'' {})))
       \<subseteq> plan_options (snd (projr (configure (fftw_3\<lparr>v_quad := True\<rparr>) ''/opt/fftw'' {})))"
    by simp
  have "\<exists>d p. configure (fftw_3\<lparr>v_pfft_patches := True\<rparr>) ''/opt/fftw'' {} = Inr (d, p)"
    by (rule configure_total) (simp add: has_compiler_def fftw_3_def gcc_def)
  then obtain d2 p2 where c2: "configure (fftw_3\<lparr>v_pfft_patches := True\<rparr>) ''/opt/fftw'' {} = Inr (d2, p2)"
    by (elim exE)
  from enabled_variant_adds_flags[where s=cp2k_default and env=no_env and isfile=no_file
      and ?b2.0=b0 and f=fftw_3 and prefix="''/opt/fftw''" and dirs="{}" and ?d2.0=d2
      and ?p2.0=p2]
  have "configure (fftw_3\<lparr>v_pfft_patches := True\<rparr>) ''/opt/fftw'' {} = Inr (d2, p2) \<longrightarrow>
        (\<exists>d1 p1. configure (fftw_3\<lparr>v_pfft_patches := False\<rparr>) ''/opt/fftw'' {} = Inr (d1, p1)
                 \<and> plan_options p1 \<subseteq> plan_options p2)"
    by (elim conjE)
  from this c2 have "\<exists>d1 p1. configure (fftw_3\<lparr>v_pfft_patches := False\<rparr>) ''/opt/fftw'' {} = Inr (d1, p1)
                 \<and> plan_options p1 \<subseteq> plan_options p2" by (rule mp)
  then obtain d1 p1 where "configure (fftw_3\<lparr>v_pfft_patches := False\<rparr>) ''/opt/fftw'' {} = Inr (d1, p1)"
    and "plan_options p1 \<subseteq> plan_options p2" by (elim exE conjE)
  with c2 have c_v_pfft_patches: "\<not> isl (configure (fftw_3\<lparr>v_pfft_patches := True\<rparr>) ''/opt/fftw'' {})
   \<and> plan_options (snd (projr (configure (fftw_3\<lparr>v_pfft_patches := False\<rparr>) ''/opt/fftw'' {})))
       \<subseteq> plan_options (snd (projr (configure (fftw_3\<lparr>v_pfft_patches := True\<rparr>) ''/opt/fftw'' {})))"
    by simp
  from c_plumed c_mpi c_v_openmp c_v_mpi c_v_float c_v_double c_v_long_double c_v_quad c_v_pfft_patches show ?thesis by (intro conjI) (elim conjE, assumption)+
qed

lemma cp2k_default_libs:
  "all_libs cp2k_default no_env =
     [''/opt/libint/lib/liblibint.a'', ''/opt/elpa/lib/libelpa.a'', ''/opt/pexsi/lib/libpexsi.so'',
      ''/opt/superlu-dist/lib/libsuperlu-dist.so'', ''/opt/parmetis/lib/libparmetis.so'',
      ''/opt/metis/lib/libmetis.so'', ''/opt/scalapack/lib/libscalapack.a'',
      ''/opt/mpi/lib/libmpi.a'', ''-lstdc++'', ''/opt/libxsmm/lib/liblibxsmm.so'',
      ''/opt/libxc/lib/liblibxc.a'', ''/opt/fftw/lib/libfftw.a'', ''/opt/lapack/lib/liblapack.a'',
      ''/opt/blas/lib/libblas.a'']"
  by (simp add: all_libs_def mpi_libs_def ll_add_def smm_libs_def scalapack_libs_def
      libxc_libs_def fftw_libs_def lapack_libs_def blas_libs_def with_static_def
      cp2k_default_def gcc_def opt_libs_def query_name_def endswith_def)

lemma cp2k_shared_libs:
  "all_libs cp2k_shared no_env =
     [''/opt/libint/lib/liblibint.so'', ''/opt/elpa/lib/libelpa.so'', ''/opt/pexsi/lib/libpexsi.so'',
      ''/opt/superlu-dist/lib/libsuperlu-dist.so'', ''/opt/parmetis/lib/libparmetis.so'',
      ''/opt/metis/lib/libmetis.so'', ''/opt/scalapack/lib/libscalapack.so'',
      ''/opt/mpi/lib/libmpi.so'', ''-lstdc++'', ''/opt/libxsmm/lib/liblibxsmm.so'',
      ''/opt/libxc/lib/liblibxc.so'', ''/opt/fftw/lib/libfftw.so'', ''/opt/lapack/lib/liblapack.so'',
      ''/opt/blas/lib/libblas.so'']"
  by (simp add: all_libs_def mpi_libs_def ll_add_def smm_libs_def scalapack_libs_def
      libxc_libs_def fftw_libs_def lapack_libs_def blas_libs_def with_static_def
      cp2k_shared_def cp2k_default_def gcc_def opt_libs_def query_name_def endswith_def)

text \<open>
  Claim C6 as stated fails for the variant static of cp2k. The Specs \<open>cp2k_shared\<close> and
  \<open>cp2k_default\<close> differ in that variant only; with static disabled the libraries are asked
  for without \<open>static\<close> and the shared objects are linked, with static enabled the
  archives, so the libraries of the disabled case are not among those of the enabled case.
\<close>

theorem static_selects_other_libraries:
  "\<not> static cp2k_shared \<and> static cp2k_default
   \<and> \<not> isl (write_makefile cp2k_shared no_env no_file)
   \<and> \<not> isl (write_makefile cp2k_default no_env no_file)
   \<and> ''/opt/fftw/lib/libfftw.so'' \<in> set (libs (projr (write_makefile cp2k_shared no_env no_file)))
   \<and> ''/opt/fftw/lib/libfftw.so''
       \<notin> set (libs (projr (write_makefile cp2k_default no_env no_file)))
   \<and> \<not> flags_subset (projr (write_makefile cp2k_shared no_env no_file))
                      (projr (write_makefile cp2k_default no_env no_file))"
proof -
  have "\<exists>b. write_makefile cp2k_shared no_env no_file = Inr b"
    unfolding write_makefile_succeeds_iff by (simp add: cp2k_shared_def cp2k_default_def gcc_def)
  then obtain b1 where b1: "write_makefile cp2k_shared no_env no_file = Inr b1" ..
  have "\<exists>b. write_makefile cp2k_default no_env no_file = Inr b"
    unfolding write_makefile_succeeds_iff by (simp add: cp2k_default_def gcc_def)
  then obtain b2 where b2: "write_makefile cp2k_default no_env no_file = Inr b2" ..
  have l1: "''/opt/fftw/lib/libfftw.so'' \<in> set (libs b1)"
    unfolding write_makefile_channels(7)[OF b1] cp2k_shared_libs by simp
  have l2: "''/opt/fftw/lib/libfftw.so'' \<notin> set (libs b2)"
    unfolding write_makefile_channels(7)[OF b2] cp2k_default_libs by simp
  have "\<not> set (libs b1) \<subseteq> set (libs b2)"
  proof
    assume "set (libs b1) \<subseteq> set (libs b2)"
    from subsetD[OF this l1] l2 show False by (rule notE[rotated])
  qed
  then have n: "\<not> flags_subset b1 b2" by (simp add: flags_subset_def)
  have "\<not> static cp2k_shared" by (simp add: cp2k_shared_def)
  moreover have "static cp2k_default" by (rule cp2k_default_fields)
  ultimately show ?thesis using l1 l2 n by (simp add: b1 b2)
qed

section \<open>The lines of the makefile\<close>

text \<open>Reading a stretch without line break moves it to the current line, and joining
  strings without line break with spaces gives a string without line break.\<close>

lemma lines_from_segment:
  "no_newline x \<Longrightarrow> lines_from cur (x @ t) = lines_from (rev x @ cur) t"
  by (induction x arbitrary: cur) (auto simp add: no_newline_def)

lemma no_newline_join:
  "\<forall>x \<in> set xs. no_newline x \<Longrightarrow> no_newline (join '' '' xs)"
  by (induction "'' ''" xs rule: join.induct) (simp_all add: no_newline_def)

lemma makefile_lines_exact:
  assumes w: "write_makefile s env isfile = Inr b"
    and n: "\<forall>v \<in> set (written_values s b). no_newline v"
  shows "split_lines (makefile_text b) =
     (if plumed s then [''include '' @ plumed_inc s, []] else [])
     @ [''CC = '' @ str_opt (cc (compiler s)),
        ''CPP = # '' @ str_opt (cc (compiler s))
          @ (if has_compiler s ''intel'' then '' -P'' else '' -E''),
        (if has_compiler s ''intel'' then ''AR = xiar -r'' else ''AR = ar -r''),
        ''FC = '' @ fc_command s, ''LD = '' @ fc_command s, [],
        ''DFLAGS = '' @ join '' '' (dflags b), [],
        ''CPPFLAGS = '' @ join '' '' (cppflags b), [],
        ''CFLAGS = '' @ join '' '' (cflags b), [],
        ''CXXFLAGS = '' @ join '' '' (cxxflags b), [],
        ''FCFLAGS = '' @ join '' '' (fcflags b), [],
        ''LDFLAGS = '' @ join '' '' (ldflags b), []]
     @ (if has_compiler s ''intel''
        then [''LDFLAGS_C = '' @ join '' '' (ldflags b) @ '' -nofor_main'', []] else [])
     @ [''LIBS = '' @ join '' '' (libs b), [], []]"
proof -
  note c = write_makefile_channels[OF w]
  have v: "no_newline (str_opt (cc (compiler s)))" "no_newline (fc_command s)"
    "no_newline (plumed_inc s)"
    using n by (simp_all add: written_values_def)
  have j: "no_newline (join '' '' (dflags b))" "no_newline (join '' '' (cflags b))"
    "no_newline (join '' '' (cxxflags b))" "no_newline (join '' '' (fcflags b))"
    "no_newline (join '' '' (ldflags b))" "no_newline (join '' '' (libs b))"
    using n by (simp_all add: written_values_def no_newline_join)
  have cpp: "cppflags b = dflags b" by (simp only: c)
  show ?thesis
  proof (cases "plumed s"; cases "has_compiler s ''intel''")
    assume a: "plumed s" "has_compiler s ''intel''"
    show ?thesis
      unfolding makefile_text_def c(8) tool_lines_def flag_lines_def split_lines_def cpp
      using a by (simp add: lines_from_segment v j)
  next
    assume a: "plumed s" "\<not> has_compiler s ''intel''"
    show ?thesis
      unfolding makefile_text_def c(8) tool_lines_def flag_lines_def split_lines_def cpp
      using a by (simp add: lines_from_segment v j)
  next
    assume a: "\<not> plumed s" "has_compiler s ''intel''"
    show ?thesis
      unfolding makefile_text_def c(8) tool_lines_def flag_lines_def split_lines_def cpp
      using a by (simp add: lines_from_segment v j)
  next
    assume a: "\<not> plumed s" "\<not> has_compiler s ''intel''"
    show ?thesis
      unfolding makefile_text_def c(8) tool_lines_def flag_lines_def split_lines_def cpp
      using a by (simp add: lines_from_segment v j)
  qed
qed

lemma cp2k_example_clean:
  assumes "s = cp2k_default \<or> s = cp2k_plumed"
    and w: "write_makefile s no_env no_file = Inr b"
  shows "\<forall>v \<in> set (written_values s b). no_newline v"
  unfolding written_values_def write_makefile_channels[OF w]
  using assms(1)
  by (elim disjE)
     (simp_all add: all_dflags_def all_fcflags_def all_ldflags_def all_libs_def
      c_template_def fc_template_def optflags_def has_compiler_def base_dflags_def
      mpi_dflags_def elpa_dflag_def smm_dflags_def mpi_fcflags_def elpa_include_def
      base_search_flags_def mpi_libs_def ll_add_def smm_libs_def scalapack_libs_def
      libxc_libs_def fftw_libs_def lapack_libs_def blas_libs_def with_static_def
      fc_command_def plumed_inc_def str_opt_def path_join2_def startswith_def
      cp2k_plumed_def cp2k_default_def gcc_def opt_libs_def query_name_def endswith_def
      opt_search_flags_def dirname_def str_nat.simps digit_char_def format_02d_def
      no_newline_def)

text \<open>
  Claim C7, amended. Whenever \<open>write_makefile\<close> produces the makefile and none of the
  strings it writes as values contains a line break, every non-blank line of the file is a
  \<open>KEY = value\<close> line, except that with plumed enabled the file starts with the line
  \<open>include\<close> followed by the path of \<open>Plumed.inc\<close>; with plumed disabled every non-blank
  line is a \<open>KEY = value\<close> line.
\<close>

theorem makefile_key_value_lines:
  assumes w: "write_makefile s env isfile = Inr b"
    and n: "\<forall>v \<in> set (written_values s b). no_newline v"
  shows "(\<forall>l \<in> set (split_lines (makefile_text b)).
            blank l \<or> key_value_line l \<or> plumed s \<and> l = ''include '' @ plumed_inc s)
       \<and> (plumed s \<longrightarrow> hd (split_lines (makefile_text b)) = ''include '' @ plumed_inc s)
       \<and> (\<not> plumed s \<longrightarrow> all_key_value (makefile_text b))"
proof -
  note e = makefile_lines_exact[OF w n]
  show ?thesis
  proof (cases "plumed s"; cases "has_compiler s ''intel''")
    assume a: "plumed s" "has_compiler s ''intel''"
    show ?thesis unfolding e all_key_value_def using a
      by (simp add: blank_def key_value_line_def is_key_char_def)
  next
    assume a: "plumed s" "\<not> has_compiler s ''intel''"
    show ?thesis unfolding e all_key_value_def using a
      by (simp add: blank_def key_value_line_def is_key_char_def)
  next
    assume a: "\<not> plumed s" "has_compiler s ''intel''"
    show ?thesis unfolding e all_key_value_def using a
      by (simp add: blank_def key_value_line_def is_key_char_def)
  next
    assume a: "\<not> plumed s" "\<not> has_compiler s ''intel''"
    show ?thesis unfolding e all_key_value_def using a
      by (simp add: blank_def key_value_line_def is_key_char_def)
  qed
qed

lemma plumed_inc_example:
  "plumed_inc cp2k_plumed = ''/opt/plumed/lib/plumed/src/lib/Plumed.inc''"
  by (simp add: plumed_inc_def cp2k_plumed_def cp2k_default_def query_name_def path_join2_def
      startswith_def endswith_def)

theorem makefile_key_value_lines_witness:
  "\<not> isl (write_makefile cp2k_plumed no_env no_file)
   \<and> list_all no_newline (written_values cp2k_plumed (projr (write_makefile cp2k_plumed no_env no_file)))
   \<and> plumed cp2k_plumed
   \<and> hd (split_lines (makefile_text (projr (write_makefile cp2k_plumed no_env no_file))))
       = ''include /opt/plumed/lib/plumed/src/lib/Plumed.inc''
   \<and> \<not> isl (write_makefile cp2k_default no_env no_file)
   \<and> list_all no_newline (written_values cp2k_default (projr (write_makefile cp2k_default no_env no_file)))
   \<and> \<not> plumed cp2k_default
   \<and> all_key_value (makefile_text (projr (write_makefile cp2k_default no_env no_file)))"
proof -
  have "\<exists>b. write_makefile cp2k_plumed no_env no_file = Inr b"
    unfolding write_makefile_succeeds_iff by (simp add: cp2k_plumed_def cp2k_default_def gcc_def)
  then obtain b1 where b1: "write_makefile cp2k_plumed no_env no_file = Inr b1" ..
  have "\<exists>b. write_makefile cp2k_default no_env no_file = Inr b"
    unfolding write_makefile_succeeds_iff by (simp add: cp2k_default_def gcc_def)
  then obtain b2 where b2: "write_makefile cp2k_default no_env no_file = Inr b2" ..
  have n1: "\<forall>v \<in> set (written_values cp2k_plumed b1). no_newline v"
    using b1 by (intro cp2k_example_clean) simp_all
  have n2: "\<forall>v \<in> set (written_values cp2k_default b2). no_newline v"
    using b2 by (intro cp2k_example_clean) simp_all
  have p1: "plumed cp2k_plumed" by (simp add: cp2k_plumed_def)
  have p2: "\<not> plumed cp2k_default" by (simp add: cp2k_default_def)
  from makefile_key_value_lines[OF b1 n1] p1
  have h: "hd (split_lines (makefile_text b1)) = ''include '' @ plumed_inc cp2k_plumed" by simp
  from makefile_key_value_lines[OF b2 n2] p2
  have k: "all_key_value (makefile_text b2)" by simp
  from n1 n2 p1 p2 h k show ?thesis
    by (simp add: b1 b2 plumed_inc_example list_all_iff)
qed

text \<open>
  Claim C7 as stated, Specs with plumed enabled included, fails for the default cp2k with
  plumed: the first line of the makefile is the include directive, which is neither blank
  nor of the form \<open>KEY = value\<close>.
\<close>

theorem include_line_is_not_key_value:
  "plumed cp2k_plumed
   \<and> \<not> isl (write_makefile cp2k_plumed no_env no_file)
   \<and> hd (split_lines (makefile_text (projr (write_makefile cp2k_plumed no_env no_file))))
       = ''include /opt/plumed/lib/plumed/src/lib/Plumed.inc''
   \<and> \<not> blank ''include /opt/plumed/lib/plumed/src/lib/Plumed.inc''
   \<and> \<not> key_value_line ''include /opt/plumed/lib/plumed/src/lib/Plumed.inc''
   \<and> \<not> all_key_value (makefile_text (projr (write_makefile cp2k_plumed no_env no_file)))"
proof -
  have "\<exists>b. write_makefile cp2k_plumed no_env no_file = Inr b"
    unfolding write_makefile_succeeds_iff by (simp add: cp2k_plumed_def cp2k_default_def gcc_def)
  then obtain b where b: "write_makefile cp2k_plumed no_env no_file = Inr b" ..
  have n: "\<forall>v \<in> set (written_values cp2k_plumed b). no_newline v"
    using b by (intro cp2k_example_clean) simp_all
  have p: "plumed cp2k_plumed" by (simp add: cp2k_plumed_def)
  note e = makefile_lines_exact[OF b n]
  have h: "hd (split_lines (makefile_text b)) = ''include /opt/plumed/lib/plumed/src/lib/Plumed.inc''"
    unfolding e using p by (simp add: plumed_inc_example)
  have nb: "\<not> blank ''include /opt/plumed/lib/plumed/src/lib/Plumed.inc''"
    by (simp add: blank_def)
  have nk: "\<not> key_value_line ''include /opt/plumed/lib/plumed/src/lib/Plumed.inc''"
    by (simp add: key_value_line_def is_key_char_def)
  have "\<not> all_key_value (makefile_text b)"
    unfolding all_key_value_def e using p nb nk by (simp add: plumed_inc_example)
  with p h nb nk show ?thesis by (simp add: b)
qed

end
